theory Spec2Isabelle
  imports Main
begin

section \<open>Python values, exceptions and string operations\<close>

text \<open>
  Values that travel through tool results and the workflow context. \<open>VObj\<close> stands for
  any object that is not one of the JSON container or scalar types below (for
  instance a provider's content wrapper); its payload is its display form.
\<close>

datatype pyval =
    VNone
  | VBool bool
  | VInt int
  | VStr string
  | VList "pyval list"
  | VDict "(string \<times> pyval) list"
  | VObj string

text \<open>An exception is its class name and its message (\<open>type(e).__name__\<close>, \<open>str(e)\<close>).\<close>

datatype exn = Exn (exn_type: string) (exn_msg: string)

definition nl :: string where
  "nl = [CHR 0x0A]"

definition digit_char :: "nat \<Rightarrow> char" where
  "digit_char d = ''0123456789'' ! d"

function str_nat :: "nat \<Rightarrow> string" where
  "str_nat n = (if n < 10 then [digit_char n] else str_nat (n div 10) @ [digit_char (n mod 10)])"
  by pat_completeness auto
termination
  by (relation "measure id") auto

declare str_nat.simps [simp del]

text \<open>\<open>str(i)\<close> for a Python int.\<close>

definition str_int :: "int \<Rightarrow> string" where
  "str_int i = (if i < 0 then CHR ''-'' # str_nat (nat (- i)) else str_nat (nat i))"

text \<open>\<open>text[:k]\<close>: a negative bound counts from the end.\<close>

definition slice_to :: "string \<Rightarrow> int \<Rightarrow> string" where
  "slice_to text k = (if 0 \<le> k then take (nat k) text else take (nat (int (length text) + k)) text)"

text \<open>
  \<open>str.strip()\<close>: removes leading and trailing whitespace. The whitespace characters
  are those of \<open>str.isspace\<close> among the code points below 256.
\<close>

definition is_space :: "char \<Rightarrow> bool" where
  "is_space c = (of_char c \<in> {9, 10, 11, 12, 13, 28, 29, 30, 31, 32, 133, 160 :: nat})"

definition strip :: "string \<Rightarrow> string" where
  "strip s = rev (dropWhile is_space (rev (dropWhile is_space s)))"

text \<open>\<open>sep.join(xs)\<close>.\<close>

fun join :: "string \<Rightarrow> string list \<Rightarrow> string" where
  "join sep [] = []"
| "join sep [x] = x"
| "join sep (x # y # ys) = x @ sep @ join sep (y # ys)"

text \<open>\<open>sub in s\<close> for strings.\<close>

fun contains :: "string \<Rightarrow> string \<Rightarrow> bool" where
  "contains sub [] = (sub = [])"
| "contains sub (c # cs) = (take (length sub) (c # cs) = sub \<or> contains sub cs)"

text \<open>
  \<open>s.replace(old, new)\<close>: non-overlapping occurrences, left to right. With an empty
  \<open>old\<close> Python inserts \<open>new\<close> before every character and at the end.
\<close>

function replace_ne :: "string \<Rightarrow> string \<Rightarrow> string \<Rightarrow> string" where
  "replace_ne old new [] = []"
| "replace_ne old new (c # cs) =
     (if old \<noteq> [] \<and> take (length old) (c # cs) = old
      then new @ replace_ne old new (drop (length old - 1) cs)
      else c # replace_ne old new cs)"
  by pat_completeness auto
termination
  by (relation "measure (\<lambda>(old, new, s). length s)") auto

definition replace :: "string \<Rightarrow> string \<Rightarrow> string \<Rightarrow> string" where
  "replace s old new =
     (if old = [] then new @ concat (map (\<lambda>c. c # new) s) else replace_ne old new s)"

text \<open>Dictionaries keep insertion order; assigning to an existing key keeps its place.\<close>

fun dict_get :: "(string \<times> 'v) list \<Rightarrow> string \<Rightarrow> 'v option" where
  "dict_get [] k = None"
| "dict_get ((k', v) # d) k = (if k' = k then Some v else dict_get d k)"

fun dict_set :: "(string \<times> 'v) list \<Rightarrow> string \<Rightarrow> 'v \<Rightarrow> (string \<times> 'v) list" where
  "dict_set [] k v = [(k, v)]"
| "dict_set ((k', v') # d) k v = (if k' = k then (k, v) # d else (k', v') # dict_set d k v)"

text \<open>\<open>d.update(u)\<close>.\<close>

fun dict_update :: "(string \<times> 'v) list \<Rightarrow> (string \<times> 'v) list \<Rightarrow> (string \<times> 'v) list" where
  "dict_update d [] = d"
| "dict_update d ((k, v) # u) = dict_update (dict_set d k v) u"

section \<open>The model client: messages, collaborators and configuration\<close>

datatype content_block =
    TextBlock string
  | ToolUseBlock string string pyval
  | OtherBlock string

record tool_result =
  tool_use_id :: string
  result_text :: string
  is_error :: bool

datatype message =
    UserText string
  | AssistantBlocks "content_block list"
  | ToolResults "tool_result list"

record api_request =
  req_system :: "string option"
  req_max_tokens :: nat
  req_messages :: "message list"
  req_tools :: "string list"

text \<open>
  Everything the client reaches outside itself, and its environment-driven constants.
  \<^item> \<open>tokenizer\<close>: the length of the tokenizer's encoding, \<open>None\<close> when encoding raises;
  \<^item> \<open>float_chars\<close>: \<open>int(target_tokens * (len(text) / original_tokens))\<close> as double
    precision arithmetic computes it, from \<open>target_tokens\<close>, \<open>len(text)\<close> and
    \<open>original_tokens\<close>;
  \<^item> \<open>json_dumps\<close>: \<open>json.dumps(content, indent=2, default=str)\<close>, \<open>None\<close> when it raises;
  \<^item> \<open>py_str\<close>: \<open>str(content)\<close>;
  \<^item> \<open>messages_create\<close>: the model API; its first argument is the number of calls
    made before this one, so that replies may differ from call to call;
  \<^item> \<open>call_tool\<close>: the tool channel followed by \<open>_safe_serialize\<close> of the content, with
    the number of earlier tool calls;
  \<^item> \<open>list_tools\<close>: the names of the tools the channel lists.
\<close>

record client_env =
  tokenizer :: "string \<Rightarrow> nat option"
  float_chars :: "int \<Rightarrow> nat \<Rightarrow> int \<Rightarrow> int"
  json_dumps :: "pyval \<Rightarrow> string option"
  py_str :: "pyval \<Rightarrow> string"
  messages_create :: "nat \<Rightarrow> api_request \<Rightarrow> exn + content_block list"
  call_tool :: "nat \<Rightarrow> string \<Rightarrow> pyval \<Rightarrow> exn + pyval"
  list_tools :: "exn + string list"
  MAX_LLM_INTERACTION_TURNS :: int
  MAX_TOOL_RESULT_TOKENS :: int

section \<open>Token estimate and fallback truncation\<close>

definition count_tokens :: "client_env \<Rightarrow> string \<Rightarrow> nat" where
  "count_tokens env text =
     (case tokenizer env text of Some n \<Rightarrow> n | None \<Rightarrow> length text div 4)"

definition truncation_msg :: "string \<Rightarrow> int \<Rightarrow> int \<Rightarrow> string" where
  "truncation_msg tool_name max_tokens original_tokens =
     nl @ nl @ ''[CONTENT TRUNCATED - Original: '' @ str_int original_tokens @ '' tokens from ''
       @ tool_name @ '', showing first '' @ str_int max_tokens @ '' tokens]''"

text \<open>
  The shrinking loop. \<open>int(len(truncated) * 0.9)\<close> is \<open>9 * len div 10\<close> for every
  length a string can have.
\<close>

function shrink :: "client_env \<Rightarrow> int \<Rightarrow> string \<Rightarrow> string" where
  "shrink env target_tokens truncated =
     (if int (count_tokens env truncated) > target_tokens \<and> length truncated > 100
      then shrink env target_tokens (take (9 * length truncated div 10) truncated)
      else truncated)"
  by pat_completeness auto
termination
  by (relation "measure (\<lambda>(env, t, s). length s)") auto

declare shrink.simps [simp del]

definition estimated_chars :: "client_env \<Rightarrow> string \<Rightarrow> int \<Rightarrow> int \<Rightarrow> int" where
  "estimated_chars env text target_tokens original_tokens =
     (if original_tokens > 0
      then float_chars env target_tokens (length text) original_tokens
      else target_tokens * 4)"

definition truncate_content_fallback ::
  "client_env \<Rightarrow> string \<Rightarrow> int \<Rightarrow> string \<Rightarrow> int \<Rightarrow> string" where
  "truncate_content_fallback env text max_tokens tool_name original_tokens =
     (let msg = truncation_msg tool_name max_tokens original_tokens;
          target_tokens = max_tokens - int (count_tokens env msg);
          truncated = slice_to text (estimated_chars env text target_tokens original_tokens)
      in shrink env target_tokens truncated @ msg)"

section \<open>Bounding large content\<close>

definition summary_prompt :: "string \<Rightarrow> string" where
  "summary_prompt tool_name =
     (if tool_name = ''list_gmail_messages''
      then ''Summarize this email data chunk concisely. Focus on: email count, key senders, date range, urgent emails. Preserve important IDs.''
      else if tool_name = ''gmail''
      then ''Summarize this Gmail data chunk. Include: email count, main participants, date range, key themes. Preserve IDs.''
      else ''Concisely summarize this '' @ tool_name @ '' data chunk. Key points only. Preserve IDs and URLs.'')"

definition chunk_size_chars :: nat where
  "chunk_size_chars = 100000"

text \<open>\<open>text[i : i + size]\<close> for \<open>i\<close> in \<open>range(0, len(text), size)\<close>.\<close>

function slices :: "nat \<Rightarrow> string \<Rightarrow> string list" where
  "slices n text =
     (if n = 0 \<or> text = [] then [] else take n text # slices n (drop n text))"
  by pat_completeness auto
termination
  by (relation "measure (\<lambda>(n, s). length s)") auto

declare slices.simps [simp del]

definition split_chunks :: "client_env \<Rightarrow> string \<Rightarrow> string list" where
  "split_chunks env text =
     filter (\<lambda>chunk. count_tokens env chunk > 0) (slices chunk_size_chars text)"

fun block_texts :: "content_block list \<Rightarrow> string" where
  "block_texts [] = []"
| "block_texts (TextBlock t # bs) = t @ block_texts bs"
| "block_texts (b # bs) = block_texts bs"

definition chunk_request :: "client_env \<Rightarrow> string \<Rightarrow> string \<Rightarrow> nat \<Rightarrow> api_request" where
  "chunk_request env tool_name chunk_text chunk_index =
     \<lparr> req_system = None, req_max_tokens = 4000,
       req_messages = [UserText (summary_prompt tool_name @ nl @ nl @ ''Chunk ''
          @ str_nat (chunk_index + 1) @ '' ('' @ str_nat (count_tokens env chunk_text)
          @ '' tokens):'' @ nl @ chunk_text)],
       req_tools = [] \<rparr>"

text \<open>
  One chunk's task. It handles every exception of its model call itself, so the task
  always produces a string. \<open>calls\<close> is the number of model calls made before it.
\<close>

definition summarize_chunk :: "client_env \<Rightarrow> string \<Rightarrow> nat \<Rightarrow> string \<Rightarrow> nat \<Rightarrow> string" where
  "summarize_chunk env tool_name calls chunk_text chunk_index =
     (case messages_create env calls (chunk_request env tool_name chunk_text chunk_index) of
        Inr blocks \<Rightarrow> strip (block_texts blocks)
      | Inl e \<Rightarrow> ''[Chunk '' @ str_nat (chunk_index + 1) @ '' summarization failed]'')"

text \<open>
  The gathered results, in chunk order. A task runs to its end once started (its model
  call does not yield), so chunk \<open>i\<close> makes call number \<open>calls + i\<close>.
\<close>

definition gather_chunks :: "client_env \<Rightarrow> string \<Rightarrow> nat \<Rightarrow> string list \<Rightarrow> (exn + string) list" where
  "gather_chunks env tool_name calls chunks =
     map (\<lambda>(i, chunk). Inr (summarize_chunk env tool_name (calls + i) chunk i))
       (enumerate 0 chunks)"

definition combine :: "(exn + string) list \<Rightarrow> string list" where
  "combine chunk_summaries =
     map (\<lambda>(i, summary). case summary of
            Inl e \<Rightarrow> ''[Chunk '' @ str_nat (i + 1) @ '' failed to summarize]''
          | Inr s \<Rightarrow> s)
       (enumerate 0 chunk_summaries)"

definition summary_header :: "string \<Rightarrow> nat \<Rightarrow> nat \<Rightarrow> string" where
  "summary_header tool_name token_count n_chunks =
     ''[CONTENT SUMMARIZED - Original: '' @ str_nat token_count @ '' tokens from '' @ tool_name
       @ '', '' @ str_nat n_chunks @ '' chunks]'' @ nl @ nl"

definition final_summary :: "client_env \<Rightarrow> string \<Rightarrow> nat \<Rightarrow> string \<Rightarrow> string" where
  "final_summary env tool_name calls text =
     (let chunks = split_chunks env text
      in summary_header tool_name (count_tokens env text) (length chunks)
           @ join (nl @ nl) (combine (gather_chunks env tool_name calls chunks)))"

definition to_text :: "client_env \<Rightarrow> pyval \<Rightarrow> string" where
  "to_text env content =
     (case content of
        VStr s \<Rightarrow> s
      | VDict d \<Rightarrow> (case json_dumps env content of Some t \<Rightarrow> t | None \<Rightarrow> py_str env content)
      | VList l \<Rightarrow> (case json_dumps env content of Some t \<Rightarrow> t | None \<Rightarrow> py_str env content)
      | _ \<Rightarrow> py_str env content)"

text \<open>The error raised above the hard limit.\<close>

definition content_too_large :: "string \<Rightarrow> nat \<Rightarrow> exn" where
  "content_too_large tool_name token_count =
     Exn ''ValueError'' (''Content from '' @ tool_name
       @ '' exceeds maximum limit of 1,000,000 tokens ('' @ str_nat token_count
       @ '' tokens). Cannot process.'')"

text \<open>
  \<open>_summarize_large_content\<close>. The result is paired with the number of model calls made
  so far (\<open>calls\<close> on entry). The handler around the summarization pipeline (fallback
  truncation of the original text) has no raising call left inside it here: each
  chunk task handles its own failure.
\<close>

definition summarize_large_content ::
  "client_env \<Rightarrow> nat \<Rightarrow> pyval \<Rightarrow> int \<Rightarrow> string \<Rightarrow> (exn + string) \<times> nat" where
  "summarize_large_content env calls content max_tokens tool_name =
     (if content = VNone then (Inr [], calls)
      else
        let text = to_text env content;
            token_count = count_tokens env text
        in if int token_count \<le> max_tokens then (Inr text, calls)
           else if token_count > 1000000
           then (Inl (content_too_large tool_name token_count), calls)
           else
             let summary = final_summary env tool_name calls text;
                 calls' = calls + length (split_chunks env text);
                 summary_tokens = count_tokens env summary
             in if int summary_tokens > max_tokens
                then (Inr (truncate_content_fallback env summary max_tokens tool_name
                        (int summary_tokens)), calls')
                else (Inr summary, calls'))"

section \<open>The tool-calling session\<close>

text \<open>Whether \<open>json.dumps(v)\<close> succeeds: no foreign object anywhere inside.\<close>

fun json_serializable :: "pyval \<Rightarrow> bool" where
  "json_serializable (VObj r) = False"
| "json_serializable (VList xs) = list_all json_serializable xs"
| "json_serializable (VDict d) = list_all (\<lambda>kv. json_serializable (snd kv)) d"
| "json_serializable v = True"

record client_state =
  session :: bool
  available_mcp_tools_cache :: "string list option"

definition cache_available_mcp_tools :: "client_env \<Rightarrow> client_state \<Rightarrow> client_state" where
  "cache_available_mcp_tools env c =
     (if \<not> session c then c\<lparr>available_mcp_tools_cache := Some []\<rparr>
      else case list_tools env of
             Inr names \<Rightarrow> c\<lparr>available_mcp_tools_cache := Some names\<rparr>
           | Inl e \<Rightarrow> c\<lparr>available_mcp_tools_cache := Some []\<rparr>)"

text \<open>\<open>self._available_mcp_tools_cache or []\<close>.\<close>

definition known_tools :: "client_state \<Rightarrow> string list" where
  "known_tools c = (case available_mcp_tools_cache c of None \<Rightarrow> [] | Some names \<Rightarrow> names)"

type_synonym tool_call = "string \<times> string \<times> pyval"

text \<open>
  The local variables of \<open>execute_llm_interaction\<close>. \<open>turn\<close> and
  \<open>requested_mcp_tool_calls\<close> are unbound (\<open>None\<close>) until the loop body assigns them.
\<close>

record session_state =
  messages :: "message list"
  aggregated_text_responses :: "string list"
  all_tool_outputs :: "(string \<times> pyval) list"
  api_calls :: nat
  tool_calls :: nat
  turn :: "nat option"
  requested_mcp_tool_calls :: "tool_call list option"

text \<open>The scan of one reply: text blocks, requests for known tools, everything else.\<close>

fun scan_blocks ::
  "string list \<Rightarrow> content_block list \<Rightarrow> string list \<times> tool_call list \<times> bool
     \<Rightarrow> string list \<times> tool_call list \<times> bool" where
  "scan_blocks names [] acc = acc"
| "scan_blocks names (TextBlock t # bs) (texts, reqs, has_text) =
     scan_blocks names bs (texts @ [t], reqs, True)"
| "scan_blocks names (ToolUseBlock i n a # bs) (texts, reqs, has_text) =
     (if n \<in> set names
      then scan_blocks names bs (texts, reqs @ [(i, n, a)], has_text)
      else scan_blocks names bs (texts, reqs, has_text))"
| "scan_blocks names (OtherBlock ty # bs) acc = scan_blocks names bs acc"

definition tool_error_detail :: "string \<Rightarrow> exn \<Rightarrow> string" where
  "tool_error_detail tool_name e = ''Error executing MCP tool '' @ tool_name @ '': '' @ exn_msg e"

text \<open>\<open>tool_use_id or tool_name\<close>.\<close>

definition output_key :: "string \<Rightarrow> string \<Rightarrow> string" where
  "output_key use_id tool_name = (if use_id = [] then tool_name else use_id)"

text \<open>
  One requested tool. The log line before the call serializes the arguments outside
  the handler, so arguments that cannot be serialized end the whole interaction.
\<close>

definition execute_tool ::
  "client_env \<Rightarrow> tool_call \<Rightarrow> session_state \<times> tool_result list
     \<Rightarrow> exn + session_state \<times> tool_result list" where
  "execute_tool env call acc =
     (case call of (use_id, tool_name, tool_input_args) \<Rightarrow>
      case acc of (st, results) \<Rightarrow>
      if \<not> json_serializable tool_input_args
      then Inl (Exn ''TypeError'' ''Object is not JSON serializable'')
      else
        let failed = (\<lambda>e st'.
              Inr (st'\<lparr>all_tool_outputs := dict_set (all_tool_outputs st')
                          (output_key use_id tool_name)
                          (VDict [(''error'', VStr (tool_error_detail tool_name e))])\<rparr>,
                   results @ [\<lparr>tool_use_id = use_id,
                                result_text = tool_error_detail tool_name e,
                                is_error = True\<rparr>]));
            st1 = st\<lparr>tool_calls := tool_calls st + 1\<rparr>
        in case call_tool env (tool_calls st) tool_name tool_input_args of
             Inl e \<Rightarrow> failed e st1
           | Inr serialized_tool_output \<Rightarrow>
               (case summarize_large_content env (api_calls st1) serialized_tool_output
                       (MAX_TOOL_RESULT_TOKENS env) tool_name of
                  (Inl e, calls) \<Rightarrow> failed e (st1\<lparr>api_calls := calls\<rparr>)
                | (Inr summarized_output, calls) \<Rightarrow>
                    Inr (st1\<lparr>api_calls := calls,
                              all_tool_outputs := dict_set (all_tool_outputs st1)
                                (output_key use_id tool_name) serialized_tool_output\<rparr>,
                         results @ [\<lparr>tool_use_id = use_id,
                                      result_text = summarized_output,
                                      is_error = False\<rparr>])))"

fun execute_tools ::
  "client_env \<Rightarrow> tool_call list \<Rightarrow> session_state \<times> tool_result list
     \<Rightarrow> exn + session_state \<times> tool_result list" where
  "execute_tools env [] acc = Inr acc"
| "execute_tools env (call # calls) acc =
     (case execute_tool env call acc of
        Inl e \<Rightarrow> Inl e
      | Inr acc' \<Rightarrow> execute_tools env calls acc')"

text \<open>
  One pass of the loop body for \<open>turn = t\<close>. The boolean says whether the loop goes on
  to the next turn (\<open>False\<close> is a \<open>break\<close>).
\<close>

definition session_turn ::
  "client_env \<Rightarrow> client_state \<Rightarrow> string \<Rightarrow> nat \<Rightarrow> session_state
     \<Rightarrow> exn + session_state \<times> bool" where
  "session_turn env c system_prompt t st0 =
     (let st = st0\<lparr>turn := Some t\<rparr>;
          request = \<lparr> req_system = Some system_prompt, req_max_tokens = 16000,
                      req_messages = messages st, req_tools = known_tools c \<rparr>;
          st1 = st\<lparr>api_calls := api_calls st + 1\<rparr>
      in case messages_create env (api_calls st) request of
           Inl e \<Rightarrow>
             Inr (st1\<lparr>aggregated_text_responses := aggregated_text_responses st1
                        @ [''Error calling Anthropic API: '' @ exn_msg e]\<rparr>, False)
         | Inr assistant_response_blocks \<Rightarrow>
             (case scan_blocks (known_tools c) assistant_response_blocks
                     (aggregated_text_responses st1, [], False) of
                (texts, reqs, has_text_this_turn) \<Rightarrow>
                  let st2 = st1\<lparr>messages := messages st1 @ [AssistantBlocks assistant_response_blocks],
                                 aggregated_text_responses := texts,
                                 requested_mcp_tool_calls := Some reqs\<rparr>
                  in if reqs = []
                     then Inr (if \<not> has_text_this_turn \<and> texts = []
                               then st2\<lparr>aggregated_text_responses :=
                                  [''[LLM interaction ended without text output or MCP tool calls this turn.]'']\<rparr>
                               else st2, False)
                     else (case execute_tools env reqs (st2, []) of
                             Inl e \<Rightarrow> Inl e
                           | Inr (st3, tool_results_for_llm_message) \<Rightarrow>
                               if tool_results_for_llm_message \<noteq> []
                               then Inr (st3\<lparr>messages := messages st3
                                           @ [ToolResults tool_results_for_llm_message]\<rparr>, True)
                               else Inr (st3, False))))"

text \<open>\<open>for turn in range(MAX_LLM_INTERACTION_TURNS)\<close>, with \<open>n\<close> turns left from turn \<open>t\<close>.\<close>

fun session_loop ::
  "client_env \<Rightarrow> client_state \<Rightarrow> string \<Rightarrow> nat \<Rightarrow> nat \<Rightarrow> session_state
     \<Rightarrow> exn + session_state" where
  "session_loop env c system_prompt 0 t st = Inr st"
| "session_loop env c system_prompt (Suc n) t st =
     (case session_turn env c system_prompt t st of
        Inl e \<Rightarrow> Inl e
      | Inr (st', go_on) \<Rightarrow>
          if go_on then session_loop env c system_prompt n (Suc t) st' else Inr st')"

text \<open>
  What follows the loop. Reading \<open>turn\<close> or \<open>requested_mcp_tool_calls\<close> while unbound
  raises.
\<close>

definition finish_session ::
  "client_env \<Rightarrow> string \<Rightarrow> session_state \<Rightarrow> exn + string \<times> (string \<times> pyval) list" where
  "finish_session env interaction_id st =
     (case turn st of
        None \<Rightarrow> Inl (Exn ''UnboundLocalError'' ''turn'')
      | Some t \<Rightarrow>
          if int t = MAX_LLM_INTERACTION_TURNS env - 1 \<and> requested_mcp_tool_calls st = None
          then Inl (Exn ''UnboundLocalError'' ''requested_mcp_tool_calls'')
          else
            let pending = (int t = MAX_LLM_INTERACTION_TURNS env - 1
                           \<and> requested_mcp_tool_calls st \<noteq> Some []);
                texts = (if pending
                         then aggregated_text_responses st @ [''[LLM interaction for ''
                           @ interaction_id @ '' reached max turns with pending tool calls.]'']
                         else aggregated_text_responses st);
                final_text = strip (join nl texts)
            in Inr (if final_text = [] \<and> all_tool_outputs st = []
                    then ''[LLM interaction produced no textual output and no tool outputs.]''
                    else final_text, all_tool_outputs st))"

text \<open>
  \<open>execute_llm_interaction\<close>: the result, the client afterwards and the number of model
  calls made, starting from \<open>calls\<close> model calls and \<open>tcalls\<close> tool calls.
\<close>

definition execute_llm_interaction ::
  "client_env \<Rightarrow> client_state \<Rightarrow> nat \<Rightarrow> nat \<Rightarrow> string \<Rightarrow> message list \<Rightarrow> string
     \<Rightarrow> (exn + (string \<times> (string \<times> pyval) list) \<times> session_state) \<times> client_state" where
  "execute_llm_interaction env c0 calls tcalls system_prompt user_messages interaction_id =
     (let c = (if available_mcp_tools_cache c0 = None \<or> available_mcp_tools_cache c0 = Some []
               then cache_available_mcp_tools env c0 else c0)
      in if \<not> session c
         then (Inl (Exn ''ConnectionError'' (''['' @ interaction_id
                 @ ''] MCP session not initialized. Cannot execute LLM interaction with tools.'')), c)
         else
           let st0 = \<lparr> messages = user_messages, aggregated_text_responses = [],
                       all_tool_outputs = [], api_calls = calls, tool_calls = tcalls,
                       turn = None, requested_mcp_tool_calls = None \<rparr>
           in case session_loop env c system_prompt (nat (MAX_LLM_INTERACTION_TURNS env)) 0 st0 of
                Inl e \<Rightarrow> (Inl e, c)
              | Inr st \<Rightarrow>
                  (case finish_session env interaction_id st of
                     Inl e \<Rightarrow> (Inl e, c)
                   | Inr r \<Rightarrow> (Inr (r, st), c)))"

section \<open>Workflow steps and their configuration\<close>

datatype node_type = Trigger | Input | Process | Output | Tool | Decision | Transform

fun type_name :: "node_type \<Rightarrow> string" where
  "type_name Trigger = ''trigger''"
| "type_name Input = ''input''"
| "type_name Process = ''process''"
| "type_name Output = ''output''"
| "type_name Tool = ''tool''"
| "type_name Decision = ''decision''"
| "type_name Transform = ''transform''"

record workflow_step =
  step :: string
  description :: string
  type :: node_type

fun STEP_DEFAULTS :: "node_type \<Rightarrow> (string \<times> pyval) list" where
  "STEP_DEFAULTS Input =
     [(''variable_name'', VStr ''step_{index}_input''),
      (''default_value'', VNone),
      (''output_variable_name'', VStr ''step_{index}_result'')]"
| "STEP_DEFAULTS Trigger =
     [(''output_variable_name'', VStr ''step_{index}_result'')]"
| "STEP_DEFAULTS Output =
     [(''output_variables'', VList [VStr ''step_{index}_result'']),
      (''format'', VNone)]"
| "STEP_DEFAULTS Process =
     [(''input_variables'', VList [VStr ''step_{prev_index}_result'']),
      (''output_variable_name'', VStr ''step_{index}_result'')]"
| "STEP_DEFAULTS Tool =
     [(''tool_name'', VStr ''exa_search''),
      (''input_mapping'', VDict [(''query'', VStr ''step_{prev_index}_result'')]),
      (''output_mapping'', VDict [(''search_results'', VStr ''$output'')])]"
| "STEP_DEFAULTS Decision =
     [(''condition'', VStr ''not_empty:step_result''),
      (''input_variables'', VList [VStr ''step_{prev_index}_result''])]"
| "STEP_DEFAULTS Transform =
     [(''transformation'', VStr ''json_stringify''),
      (''input_variables'', VList [VStr ''step_{prev_index}_result'']),
      (''output_variable'', VStr ''step_{index}_result'')]"

text \<open>The placeholder substitution applied to one default value at ordinal \<open>step_index\<close>.\<close>

definition substitute_item :: "nat \<Rightarrow> pyval \<Rightarrow> pyval" where
  "substitute_item step_index item =
     (case item of
        VStr s \<Rightarrow>
          if step_index > 0
          then VStr (replace (replace s ''{index}'' (str_nat step_index))
                       ''{prev_index}'' (str_nat (step_index - 1)))
          else item
      | _ \<Rightarrow> item)"

definition dropped_item :: "nat \<Rightarrow> pyval \<Rightarrow> bool" where
  "dropped_item step_index item =
     (case item of
        VStr s \<Rightarrow> contains ''{prev_index}'' s \<and> step_index = 0
      | _ \<Rightarrow> False)"

definition substitute_value :: "nat \<Rightarrow> pyval \<Rightarrow> pyval" where
  "substitute_value step_index v =
     (case v of
        VStr s \<Rightarrow>
          VStr (replace (replace s ''{index}'' (str_nat step_index))
                  ''{prev_index}'' (if step_index > 0 then str_nat (step_index - 1) else []))
      | VList items \<Rightarrow>
          VList (map (substitute_item step_index)
                   (filter (\<lambda>item. \<not> dropped_item step_index item) items))
      | _ \<Rightarrow> v)"

fun apply_defaults :: "nat \<Rightarrow> (string \<times> pyval) list \<Rightarrow> (string \<times> pyval) list
     \<Rightarrow> (string \<times> pyval) list" where
  "apply_defaults step_index [] config = config"
| "apply_defaults step_index ((key, v) # defaults) config =
     apply_defaults step_index defaults (dict_set config key (substitute_value step_index v))"

definition get_step_config :: "workflow_step list \<Rightarrow> nat \<Rightarrow> (string \<times> pyval) list" where
  "get_step_config workflow_steps step_index =
     (if step_index \<ge> length workflow_steps then []
      else
        let wstep = workflow_steps ! step_index;
            config = [(''step'', VStr (step wstep)),
                      (''description'', VStr (description wstep)),
                      (''type'', VStr (type_name (type wstep)))]
        in apply_defaults step_index (STEP_DEFAULTS (type wstep)) config)"

section \<open>The workflow runner: collaborators and state\<close>

record agent =
  agent_id :: string
  agent_name :: string
  agent_user_id :: "string option"
  objective :: string
  workflow :: "workflow_step list"

text \<open>
  What a model interaction is asked: the prompts are built from exactly these data.
\<close>

record llm_request =
  request_step :: workflow_step
  request_index :: nat
  request_config :: "(string \<times> pyval) list"
  request_context :: "(string \<times> pyval) list"
  request_variables :: "(string \<times> pyval) list"

text \<open>
  The runner's collaborators and constants.
  \<^item> \<open>llm_interaction\<close>: the text that the client's \<open>execute_llm_interaction\<close> returns,
    or the exception it raises; the first argument counts the earlier interactions;
  \<^item> \<open>json_loads\<close>: \<open>json.loads\<close> on text that starts with an opening brace, \<open>None\<close>
    on a decoding error;
  \<^item> \<open>json_stringify\<close>: \<open>json.dumps(v, default=str)\<close>, \<open>None\<close> when it raises;
  \<^item> \<open>display\<close>: \<open>str(v)\<close>;
  \<^item> \<open>plain_object\<close>: the attributes that \<open>_safe_serialize\<close> reads from a foreign object;
  \<^item> \<open>mcp_session\<close>, \<open>session_call_tool\<close>: the tool channel of the client;
  \<^item> \<open>db_client\<close>: \<open>None\<close> without a database client, else what
    \<open>insert_agent_execution\<close> returns or raises;
  \<^item> \<open>uuid4\<close>: the generated execution id.
\<close>

record runner_env =
  llm_interaction :: "nat \<Rightarrow> llm_request \<Rightarrow> exn + string"
  json_loads :: "string \<Rightarrow> (string \<times> pyval) list option"
  json_stringify :: "pyval \<Rightarrow> string option"
  display :: "pyval \<Rightarrow> string"
  plain_object :: "pyval \<Rightarrow> pyval"
  mcp_session :: bool
  session_call_tool :: "nat \<Rightarrow> string \<Rightarrow> (string \<times> pyval) list \<Rightarrow> exn + pyval"
  db_client :: "(exn + string) option"
  uuid4 :: string
  MAX_WORKFLOW_STEPS :: nat

text \<open>
  The mutable state of one runner: the context (\<open>variables\<close>, \<open>step_outputs\<close>), the
  bookkeeping of the run, and how often the model and the tool channel were invoked.
\<close>

record runner_state =
  variables :: "(string \<times> pyval) list"
  step_outputs :: "(nat \<times> (string \<times> pyval) list) list"
  executed_steps :: "nat set"
  current_step :: nat
  llm_interactions :: nat
  tool_invocations :: nat

text \<open>\<open>context.get(key)\<close>: a missing key reads as \<open>None\<close>.\<close>

definition context_get :: "runner_state \<Rightarrow> string \<Rightarrow> pyval" where
  "context_get st key = (case dict_get (variables st) key of Some v \<Rightarrow> v | None \<Rightarrow> VNone)"

definition context_set :: "runner_state \<Rightarrow> string \<Rightarrow> pyval \<Rightarrow> runner_state" where
  "context_set st key v = st\<lparr>variables := dict_set (variables st) key v\<rparr>"

definition context_update :: "runner_state \<Rightarrow> (string \<times> pyval) list \<Rightarrow> runner_state" where
  "context_update st updates = st\<lparr>variables := dict_update (variables st) updates\<rparr>"

fun step_outputs_set ::
  "(nat \<times> 'v) list \<Rightarrow> nat \<Rightarrow> 'v \<Rightarrow> (nat \<times> 'v) list" where
  "step_outputs_set [] k v = [(k, v)]"
| "step_outputs_set ((k', v') # d) k v =
     (if k' = k then (k, v) # d else (k', v') # step_outputs_set d k v)"

definition track_step_output ::
  "runner_state \<Rightarrow> nat \<Rightarrow> (string \<times> pyval) list \<Rightarrow> runner_state" where
  "track_step_output st step_index outputs =
     context_update (st\<lparr>step_outputs := step_outputs_set (step_outputs st) step_index outputs\<rparr>)
       outputs"

text \<open>
  Reading the step configuration. Entries have the types the node configuration
  models declare (names are strings, variable lists are lists of strings, mappings
  are dictionaries of strings); an entry of another type reads as the fallback.
\<close>

definition config_str :: "(string \<times> pyval) list \<Rightarrow> string \<Rightarrow> string \<Rightarrow> string" where
  "config_str config key fallback =
     (case dict_get config key of Some (VStr s) \<Rightarrow> s | _ \<Rightarrow> fallback)"

definition config_names :: "(string \<times> pyval) list \<Rightarrow> string \<Rightarrow> string list" where
  "config_names config key =
     (case dict_get config key of
        Some (VList items) \<Rightarrow> concat (map (\<lambda>item. case item of VStr s \<Rightarrow> [s] | _ \<Rightarrow> []) items)
      | _ \<Rightarrow> [])"

definition config_mapping ::
  "(string \<times> pyval) list \<Rightarrow> string \<Rightarrow> (string \<times> pyval) list \<Rightarrow> (string \<times> pyval) list" where
  "config_mapping config key fallback =
     (case dict_get config key of Some (VDict m) \<Rightarrow> m | _ \<Rightarrow> fallback)"

definition step_key :: "nat \<Rightarrow> string \<Rightarrow> string" where
  "step_key step_index suffix = ''step_'' @ str_nat step_index @ suffix"

definition sq :: string where
  "sq = [CHR 0x27]"

text \<open>Python truthiness, as \<open>not decision_result\<close> uses it.\<close>

fun truthy :: "pyval \<Rightarrow> bool" where
  "truthy VNone = False"
| "truthy (VBool b) = b"
| "truthy (VInt i) = (i \<noteq> 0)"
| "truthy (VStr s) = (s \<noteq> [])"
| "truthy (VList xs) = (xs \<noteq> [])"
| "truthy (VDict d) = (d \<noteq> [])"
| "truthy (VObj r) = True"

section \<open>Executing a tool step\<close>

fun resolve_args ::
  "(string \<times> pyval) list \<Rightarrow> (string \<times> pyval) list \<Rightarrow> (string \<times> pyval) list
     \<Rightarrow> (string \<times> pyval) list" where
  "resolve_args context_vars [] resolved = resolved"
| "resolve_args context_vars ((arg_name, VStr context_var_path) # input_mapping) resolved =
     (case dict_get context_vars context_var_path of
        Some v \<Rightarrow> resolve_args context_vars input_mapping (dict_set resolved arg_name v)
      | None \<Rightarrow> resolve_args context_vars input_mapping resolved)"
| "resolve_args context_vars ((arg_name, other) # input_mapping) resolved =
     resolve_args context_vars input_mapping resolved"

fun map_outputs ::
  "pyval \<Rightarrow> (string \<times> pyval) list \<Rightarrow> (string \<times> pyval) list \<Rightarrow> (string \<times> pyval) list" where
  "map_outputs result_content [] outputs = outputs"
| "map_outputs result_content ((context_var, source_path) # output_mapping) outputs =
     map_outputs result_content output_mapping
       (dict_set outputs context_var
          (if source_path = VStr ''$output'' then result_content
           else case (result_content, source_path) of
                  (VDict d, VStr p) \<Rightarrow> (case dict_get d p of Some v \<Rightarrow> v | None \<Rightarrow> result_content)
                | _ \<Rightarrow> result_content))"

text \<open>
  \<open>_execute_tool_step\<close>. The log line that serializes the resolved arguments stands
  before the handler: arguments that cannot be serialized raise out of the function.
\<close>

definition execute_tool_step ::
  "runner_env \<Rightarrow> runner_state \<Rightarrow> nat \<Rightarrow> (string \<times> pyval) list
     \<Rightarrow> exn + (string \<times> pyval) list \<times> runner_state" where
  "execute_tool_step env st step_index config =
     (let resolved_args = resolve_args (variables st) (config_mapping config ''input_mapping'' []) [];
          tool_name = config_str config ''tool_name'' ''exa_search''
      in if \<not> json_serializable (VDict resolved_args)
         then Inl (Exn ''TypeError'' ''Object is not JSON serializable'')
         else
           let failed = (\<lambda>e. [(step_key step_index ''_error'',
                                 VStr (''Error executing tool '' @ sq @ tool_name @ sq @ '': ''
                                       @ exn_msg e))])
           in if \<not> mcp_session env
              then Inr (failed (Exn ''ConnectionError''
                                  ''MCP Client session not available for tool call''), st)
              else
                case session_call_tool env (tool_invocations st) tool_name resolved_args of
                  Inl e \<Rightarrow> Inr (failed e, st\<lparr>tool_invocations := tool_invocations st + 1\<rparr>)
                | Inr result_content \<Rightarrow>
                    Inr (map_outputs result_content
                           (config_mapping config ''output_mapping''
                              [(''search_results'', VStr ''$output'')]) [],
                         st\<lparr>tool_invocations := tool_invocations st + 1\<rparr>))"

section \<open>Executing every other step\<close>

text \<open>\<open>str.split(sep)\<close> for a one-character separator.\<close>

fun split_on :: "char \<Rightarrow> string \<Rightarrow> string list" where
  "split_on sep [] = [[]]"
| "split_on sep (c # cs) =
     (if c = sep then [] # split_on sep cs
      else case split_on sep cs of
             w # ws \<Rightarrow> (c # w) # ws
           | [] \<Rightarrow> [[c]])"

definition lower_char :: "char \<Rightarrow> char" where
  "lower_char c =
     (if 65 \<le> (of_char c :: nat) \<and> (of_char c :: nat) \<le> 90 then char_of (of_char c + 32 :: nat) else c)"

text \<open>\<open>str.lower()\<close> on ASCII text.\<close>

definition lower :: "string \<Rightarrow> string" where
  "lower s = map lower_char s"

text \<open>\<open>s.find(c)\<close> and \<open>s.rfind(c)\<close> for a character; \<open>None\<close> is Python's \<open>-1\<close>.\<close>

definition find_char :: "char \<Rightarrow> string \<Rightarrow> nat option" where
  "find_char c s = (if c \<in> set s then Some (length (takeWhile (\<lambda>x. x \<noteq> c) s)) else None)"

definition rfind_char :: "char \<Rightarrow> string \<Rightarrow> nat option" where
  "rfind_char c s =
     (if c \<in> set s then Some (length s - 1 - length (takeWhile (\<lambda>x. x \<noteq> c) (rev s))) else None)"

text \<open>The emptiness test of the direct \<open>not_empty\<close> evaluation.\<close>

definition is_empty :: "pyval \<Rightarrow> bool" where
  "is_empty variable_value =
     (variable_value = VNone \<or> variable_value = VStr [] \<or> variable_value = VList []
      \<or> variable_value = VDict []
      \<or> (case variable_value of VStr s \<Rightarrow> strip s = [] | _ \<Rightarrow> False))"

text \<open>The local \<open>_safe_serialize\<close> of the step executor.\<close>

definition safe_serialize :: "runner_env \<Rightarrow> pyval \<Rightarrow> pyval" where
  "safe_serialize env obj =
     (if json_serializable obj then obj
      else case obj of
             VObj r \<Rightarrow> plain_object env obj
           | _ \<Rightarrow> VStr (display env obj))"

fun select_vars ::
  "runner_env \<Rightarrow> (string \<times> pyval) list \<Rightarrow> string list \<Rightarrow> (string \<times> pyval) list
     \<Rightarrow> (string \<times> pyval) list" where
  "select_vars env context_vars [] filtered = filtered"
| "select_vars env context_vars (var_name # names) filtered =
     (case dict_get context_vars var_name of
        Some v \<Rightarrow> select_vars env context_vars names (dict_set filtered var_name (safe_serialize env v))
      | None \<Rightarrow> select_vars env context_vars names filtered)"

definition small_value :: "runner_env \<Rightarrow> pyval \<Rightarrow> bool" where
  "small_value env v =
     (case v of
        VStr s \<Rightarrow> True
      | VInt i \<Rightarrow> True
      | VBool b \<Rightarrow> True
      | VList xs \<Rightarrow> length (display env v) < 1000
      | VDict d \<Rightarrow> length (display env v) < 1000
      | _ \<Rightarrow> False)"

fun select_small ::
  "runner_env \<Rightarrow> (string \<times> pyval) list \<Rightarrow> (string \<times> pyval) list \<Rightarrow> (string \<times> pyval) list" where
  "select_small env [] filtered = filtered"
| "select_small env ((key, v) # context_vars) filtered =
     (if small_value env v
      then select_small env context_vars (dict_set filtered key (safe_serialize env v))
      else select_small env context_vars filtered)"

definition filtered_context ::
  "runner_env \<Rightarrow> agent \<Rightarrow> runner_state \<Rightarrow> workflow_step \<Rightarrow> nat \<Rightarrow> (string \<times> pyval) list
     \<Rightarrow> (string \<times> pyval) list" where
  "filtered_context env ag st wstep step_index config =
     (let input_variables = config_names config ''input_variables'';
          context_vars = variables st;
          chosen =
            (if input_variables \<noteq> [] then select_vars env context_vars input_variables []
             else if type wstep = Input
             then select_vars env context_vars
                    [config_str config ''variable_name'' (step_key step_index ''_input'')] []
             else if type wstep = Output
             then select_vars env context_vars (config_names config ''output_variables'') []
             else if type wstep = Transform
             then select_vars env context_vars input_variables []
             else select_small env context_vars [])
      in dict_set (dict_set chosen ''agent_name'' (VStr (agent_name ag)))
           ''agent_id'' (VStr (agent_id ag)))"

text \<open>The outputs read from the model's reply.\<close>

definition parse_llm_response ::
  "runner_env \<Rightarrow> nat \<Rightarrow> (string \<times> pyval) list \<Rightarrow> string \<Rightarrow> (string \<times> pyval) list" where
  "parse_llm_response env step_index config llm_response =
     (let fallback_var = config_str config ''output_variable_name'' (step_key step_index ''_result'');
          json_end = (case rfind_char CHR ''}'' llm_response of Some e \<Rightarrow> e + 1 | None \<Rightarrow> 0)
      in case find_char CHR ''{'' llm_response of
           None \<Rightarrow> [(fallback_var, VStr llm_response)]
         | Some json_start \<Rightarrow>
             if json_end > json_start
             then (case json_loads env (take (json_end - json_start) (drop json_start llm_response)) of
                     Some node_outputs \<Rightarrow> dict_update [] node_outputs
                   | None \<Rightarrow> [(fallback_var, VStr llm_response)])
             else [(fallback_var, VStr llm_response)])"

text \<open>The part of \<open>_execute_step_with_llm\<close> that asks the model.\<close>

definition ask_llm ::
  "runner_env \<Rightarrow> agent \<Rightarrow> runner_state \<Rightarrow> workflow_step \<Rightarrow> nat \<Rightarrow> (string \<times> pyval) list
     \<Rightarrow> (string \<times> pyval) list \<Rightarrow> exn + (string \<times> pyval) list \<times> runner_state" where
  "ask_llm env ag st wstep step_index config filtered =
     (if \<not> json_serializable (VDict config)
      then Inl (Exn ''TypeError'' ''Object is not JSON serializable'')
      else
        let request = \<lparr> request_step = wstep, request_index = step_index,
                         request_config = config, request_context = filtered,
                         request_variables = variables st \<rparr>;
            st1 = st\<lparr>llm_interactions := llm_interactions st + 1\<rparr>
        in case llm_interaction env (llm_interactions st) request of
             Inr llm_response \<Rightarrow> Inr (parse_llm_response env step_index config llm_response, st1)
           | Inl e \<Rightarrow>
               let error_msg = ''Error during LLM interaction for step execution: '' @ exn_msg e
               in Inr ([(step_key step_index ''_error'', VStr error_msg)],
                       context_set st1 (step_key step_index ''_error'') (VStr error_msg)))"

text \<open>The direct evaluation of a decision; \<open>None\<close> when it does not apply.\<close>

definition direct_decision ::
  "runner_state \<Rightarrow> nat \<Rightarrow> (string \<times> pyval) list \<Rightarrow> (string \<times> pyval) list option" where
  "direct_decision st step_index config =
     (let condition = config_str config ''condition'' ''not_empty:step_result''
      in case split_on CHR '':'' condition of
           [condition_type, variable_name] \<Rightarrow>
             let variable_value = context_get st variable_name
             in if condition_type = ''not_empty'' \<and> variable_value \<noteq> VNone
                then
                  let condition_result = \<not> is_empty variable_value;
                      explanation =
                        (if condition_result
                         then ''The condition '' @ sq @ condition @ sq @ '' is TRUE because ''
                              @ sq @ variable_name @ sq @ '' is not empty''
                         else ''The condition '' @ sq @ condition @ sq @ '' is FALSE because ''
                              @ sq @ variable_name @ sq @ '' is empty'')
                  in Some [(step_key step_index ''_condition_result'', VBool condition_result),
                           (step_key step_index ''_explanation'', VStr explanation)]
                else None
         | _ \<Rightarrow> None)"

text \<open>The direct evaluation of a transform; \<open>None\<close> when it does not apply or raises.\<close>

definition direct_transform ::
  "runner_env \<Rightarrow> nat \<Rightarrow> (string \<times> pyval) list \<Rightarrow> (string \<times> pyval) list
     \<Rightarrow> (string \<times> pyval) list option" where
  "direct_transform env step_index config filtered =
     (let transformation = lower (config_str config ''transformation'' ''json_stringify'');
          input_values = map (\<lambda>var. case dict_get filtered var of Some v \<Rightarrow> v | None \<Rightarrow> VNone)
                           (config_names config ''input_variables'');
          output_var = config_str config ''output_variable'' (step_key step_index ''_result'')
      in if transformation = ''json_stringify'' \<and> input_values \<noteq> []
         then (case json_stringify env (hd input_values) of
                 Some result \<Rightarrow> Some [(output_var, VStr result)]
               | None \<Rightarrow> None)
         else None)"

text \<open>\<open>_execute_step_with_llm\<close>: the outputs and the runner afterwards, or the exception.\<close>

definition execute_step_with_llm ::
  "runner_env \<Rightarrow> agent \<Rightarrow> runner_state \<Rightarrow> workflow_step \<Rightarrow> nat \<Rightarrow> (string \<times> pyval) list
     \<Rightarrow> exn + (string \<times> pyval) list \<times> runner_state" where
  "execute_step_with_llm env ag st wstep step_index config =
     (let var_name = config_str config ''variable_name'' (step_key step_index ''_input'');
          default_value = (case dict_get config ''default_value'' of Some v \<Rightarrow> v | None \<Rightarrow> VNone)
      in if type wstep = Input \<and> context_get st var_name = VNone \<and> default_value \<noteq> VNone
         then Inr ([(var_name, default_value)], st)
         else
           case (if type wstep = Decision then direct_decision st step_index config else None) of
             Some outputs \<Rightarrow> Inr (outputs, st)
           | None \<Rightarrow>
               let filtered = filtered_context env ag st wstep step_index config
               in case (if type wstep = Transform
                        then direct_transform env step_index config filtered else None) of
                    Some outputs \<Rightarrow> Inr (outputs, st)
                  | None \<Rightarrow> ask_llm env ag st wstep step_index config filtered)"

section \<open>One engine step\<close>

text \<open>The dispatch on the step's type, for the configuration \<open>config\<close>.\<close>

definition dispatch_step ::
  "runner_env \<Rightarrow> agent \<Rightarrow> runner_state \<Rightarrow> nat \<Rightarrow> (string \<times> pyval) list
     \<Rightarrow> exn + (string \<times> pyval) list \<times> runner_state" where
  "dispatch_step env ag st step_index config =
     (let wstep = workflow ag ! step_index
      in if type wstep = Tool
         then execute_tool_step env st step_index config
         else execute_step_with_llm env ag st wstep step_index config)"

definition step_error_msg :: "agent \<Rightarrow> nat \<Rightarrow> nat \<Rightarrow> exn \<Rightarrow> string" where
  "step_error_msg ag step_index current_step_number e =
     ''Error executing step '' @ str_nat step_index @ '' '' @ sq @ step (workflow ag ! step_index)
       @ sq @ '' (Step: '' @ str_nat current_step_number @ ''): '' @ exn_msg e"

text \<open>
  The \<open>try\<close> block of \<open>execute_step\<close> and its handler, once the configuration is built:
  the step's outputs, the continue flag and the runner afterwards.
\<close>

definition run_step ::
  "runner_env \<Rightarrow> agent \<Rightarrow> runner_state \<Rightarrow> nat \<Rightarrow> nat \<Rightarrow> (string \<times> pyval) list
     \<Rightarrow> ((string \<times> pyval) list \<times> bool) \<times> runner_state" where
  "run_step env ag st step_index current_step_number config =
     (case dispatch_step env ag st step_index config of
        Inr (outputs, st1) \<Rightarrow>
          let decision_result =
                (case dict_get outputs (step_key step_index ''_condition_result'') of
                   Some v \<Rightarrow> v | None \<Rightarrow> VBool True);
              should_continue =
                (\<not> (type (workflow ag ! step_index) = Decision \<and> \<not> truthy decision_result))
          in ((outputs, should_continue), track_step_output st1 step_index outputs)
      | Inl e \<Rightarrow>
          let error_msg = step_error_msg ag step_index current_step_number e
          in (([(step_key step_index ''_error'', VStr error_msg),
                (step_key step_index ''_exception_type'', VStr (exn_type e))], False),
              context_set st (step_key step_index ''_error'') (VStr error_msg)))"

text \<open>
  \<open>execute_step\<close>. An index outside the workflow raises before the handler is
  entered; otherwise the configuration is the one \<open>get_step_config\<close> builds.
\<close>

definition execute_step ::
  "runner_env \<Rightarrow> agent \<Rightarrow> runner_state \<Rightarrow> nat \<Rightarrow> nat
     \<Rightarrow> exn + ((string \<times> pyval) list \<times> bool) \<times> runner_state" where
  "execute_step env ag st step_index current_step_number =
     (if step_index \<ge> length (workflow ag)
      then Inl (Exn ''ValueError'' (''Step index '' @ str_nat step_index
                  @ '' out of range at step '' @ str_nat current_step_number @ ''.''))
      else Inr (run_step env ag st step_index current_step_number
                  (get_step_config (workflow ag) step_index)))"

section \<open>The workflow run\<close>

datatype execution_state = Pending | Running | Completed | Failed | Cancelled

record execution_record =
  record_id :: string
  state :: execution_state
  error_message :: "string option"
  record_final_outputs :: "(string \<times> pyval) list option"

text \<open>
  What the run returns, together with the record as the finalizer leaves it, the
  runner at the end, and the loop variables \<open>(step_index, should_continue)\<close> at the exit
  of the loop (\<open>None\<close> when the run did not leave the loop normally).
\<close>

record run_result =
  result_error :: "string option"
  execution_id :: string
  workflow_final_status :: execution_state
  final_outputs :: "(string \<times> pyval) list"
  finalized_record :: execution_record
  runner :: runner_state
  loop_exit :: "(nat \<times> bool) option"

text \<open>The outputs of an output step, with values that do not serialize as their display form.\<close>

definition serializable_outputs ::
  "runner_env \<Rightarrow> (string \<times> pyval) list \<Rightarrow> (string \<times> pyval) list" where
  "serializable_outputs env outputs =
     dict_update [] (map (\<lambda>(k, v). (k, if json_serializable v then v else VStr (display env v)))
                       outputs)"

text \<open>
  The \<open>while\<close> loop of \<open>execute_workflow\<close>, from its state \<open>(step_index, should_continue,
  runner, final_outputs)\<close> to its state at exit; an exception that escapes
  \<open>execute_step\<close> comes with the runner at that point.
\<close>

function workflow_loop ::
  "runner_env \<Rightarrow> agent \<Rightarrow> nat \<Rightarrow> bool \<Rightarrow> runner_state \<Rightarrow> (string \<times> pyval) list
     \<Rightarrow> exn \<times> runner_state \<times> (string \<times> pyval) list
         + nat \<times> bool \<times> runner_state \<times> (string \<times> pyval) list" where
  "workflow_loop env ag step_index should_continue st outs =
     (if step_index < length (workflow ag) \<and> should_continue
         \<and> current_step st < MAX_WORKFLOW_STEPS env
      then
        let st1 = st\<lparr>current_step := current_step st + 1,
                     executed_steps := insert step_index (executed_steps st)\<rparr>
        in case execute_step env ag st1 step_index (current_step st1) of
             Inl e \<Rightarrow> Inl (e, st1, outs)
           | Inr ((step_outs, continue), st2) \<Rightarrow>
               workflow_loop env ag (step_index + 1) continue st2
                 (if type (workflow ag ! step_index) = Output
                  then dict_update outs (serializable_outputs env step_outs)
                  else outs)
      else Inr (step_index, should_continue, st, outs))"
  by pat_completeness auto
termination
  by (relation "measure (\<lambda>(env, ag, step_index, c, st, outs). length (workflow ag) - step_index)")
     auto

declare workflow_loop.simps [simp del]

text \<open>The classification at loop exit: state, error message and status detail.\<close>

definition classify ::
  "runner_env \<Rightarrow> agent \<Rightarrow> nat \<Rightarrow> bool \<Rightarrow> runner_state
     \<Rightarrow> execution_state \<times> string option \<times> string" where
  "classify env ag step_index should_continue st =
     (if current_step st \<ge> MAX_WORKFLOW_STEPS env \<and> step_index < length (workflow ag)
      then (Failed,
            Some (''Reached maximum workflow steps ('' @ str_nat (MAX_WORKFLOW_STEPS env)
                  @ ''). Terminating.''),
            ''terminated_max_steps'')
      else if \<not> should_continue
      then (Completed, None, ''completed_stopped_by_decision'')
      else if step_index \<ge> length (workflow ag)
      then (Completed, None, ''completed_successfully'')
      else (Completed, None, ''completed_successfully''))"

text \<open>The finalizer's normalization of the record.\<close>

definition finalize :: "execution_record \<Rightarrow> execution_record" where
  "finalize r =
     (if state r \<noteq> Completed \<and> state r \<noteq> Failed
      then r\<lparr>state := Failed,
              error_message :=
                (if error_message r = None \<or> error_message r = Some []
                 then Some ''Workflow ended in an unexpected or ambiguous state.''
                 else error_message r)\<rparr>
      else r)"

text \<open>The handler of \<open>execute_workflow\<close> for an exception that reaches it.\<close>

definition workflow_failed ::
  "string \<Rightarrow> execution_record \<Rightarrow> exn \<Rightarrow> runner_state \<Rightarrow> (string \<times> pyval) list \<Rightarrow> run_result" where
  "workflow_failed agent_execution_id r e st outs =
     \<lparr> result_error = Some (exn_msg e),
       execution_id = agent_execution_id,
       workflow_final_status = Failed,
       final_outputs = outs,
       finalized_record = finalize (r\<lparr>state := Failed, error_message := Some (exn_msg e)\<rparr>),
       runner = st,
       loop_exit = None \<rparr>"

text \<open>
  The run up to the loop: the context is seeded, the execution record is created and
  inserted, and the bookkeeping is reset. An exception here goes to the handler.
\<close>

definition prepare_run ::
  "runner_env \<Rightarrow> agent \<Rightarrow> runner_state \<Rightarrow> (string \<times> pyval) list
     \<Rightarrow> (exn \<times> string \<times> execution_record \<times> runner_state)
         + (string \<times> execution_record \<times> runner_state)" where
  "prepare_run env ag st0 initial_context =
     (let st1 = (if initial_context \<noteq> [] then context_update st0 initial_context else st0);
          st2 = context_update st1
                  [(''execution_id'', VStr (uuid4 env)),
                   (''agent_id'', VStr (agent_id ag)),
                   (''agent_name'', VStr (agent_name ag))];
          r0 = \<lparr> record_id = uuid4 env, state = Running, error_message = None,
                 record_final_outputs = None \<rparr>
      in case db_client env of
           Some (Inl e) \<Rightarrow> Inl (e, uuid4 env, r0, st2)
         | inserted \<Rightarrow>
             let returned_id = (case inserted of Some (Inr i) \<Rightarrow> i | _ \<Rightarrow> []);
                 agent_execution_id = (if returned_id \<noteq> [] then returned_id else uuid4 env);
                 r1 = r0\<lparr>record_id := agent_execution_id\<rparr>;
                 st3 = (if returned_id \<noteq> []
                        then context_set st2 ''execution_id'' (VStr agent_execution_id) else st2);
                 st4 = context_update st3
                         [(''user_id'', (case agent_user_id ag of Some u \<Rightarrow> VStr u | None \<Rightarrow> VNone)),
                          (''workflow_objective'', VStr (objective ag))]
             in if workflow ag = []
                then Inl (Exn ''ValueError'' ''No workflow steps defined for the agent.'',
                          agent_execution_id, r1, st4)
                else Inr (agent_execution_id, r1, st4\<lparr>executed_steps := {}, current_step := 0\<rparr>))"

text \<open>The run after the loop: classification, result and finalizer.\<close>

definition complete_run ::
  "runner_env \<Rightarrow> agent \<Rightarrow> string \<Rightarrow> execution_record \<Rightarrow> nat \<Rightarrow> bool \<Rightarrow> runner_state
     \<Rightarrow> (string \<times> pyval) list \<Rightarrow> run_result" where
  "complete_run env ag agent_execution_id r step_index should_continue st outs =
     (case classify env ag step_index should_continue st of
        (final_state, msg, detail) \<Rightarrow>
          \<lparr> result_error = None,
            execution_id = agent_execution_id,
            workflow_final_status = final_state,
            final_outputs = outs,
            finalized_record =
              finalize (r\<lparr>state := final_state, error_message := msg,
                          record_final_outputs := Some outs\<rparr>),
            runner = context_set st ''workflow_status_detail'' (VStr detail),
            loop_exit = Some (step_index, should_continue) \<rparr>)"

definition execute_workflow ::
  "runner_env \<Rightarrow> agent \<Rightarrow> runner_state \<Rightarrow> (string \<times> pyval) list \<Rightarrow> run_result" where
  "execute_workflow env ag st0 initial_context =
     (case prepare_run env ag st0 initial_context of
        Inl (e, agent_execution_id, r, st) \<Rightarrow> workflow_failed agent_execution_id r e st []
      | Inr (agent_execution_id, r, st) \<Rightarrow>
          (case workflow_loop env ag 0 True st [] of
             Inl (e, st', outs) \<Rightarrow> workflow_failed agent_execution_id r e st' outs
           | Inr (step_index, should_continue, st', outs) \<Rightarrow>
               complete_run env ag agent_execution_id r step_index should_continue st' outs))"

section \<open>Concrete collaborators for the examples\<close>

text \<open>
  Exact arithmetic for the character estimate; it agrees with double precision
  wherever the quotient and the product are exactly representable, as in the examples
  below.
\<close>

definition exact_chars :: "int \<Rightarrow> nat \<Rightarrow> int \<Rightarrow> int" where
  "exact_chars target_tokens n original_tokens =
     (if 0 \<le> target_tokens then (target_tokens * int n) div original_tokens
      else - ((- target_tokens * int n) div original_tokens))"

text \<open>
  A client whose tokenizer always raises, so that every estimate is a quarter of the
  length, around a given model API.
\<close>

definition estimating_client :: "(nat \<Rightarrow> api_request \<Rightarrow> exn + content_block list) \<Rightarrow> client_env" where
  "estimating_client api =
     \<lparr> tokenizer = (\<lambda>text. None), float_chars = exact_chars,
       json_dumps = (\<lambda>v. None), py_str = (\<lambda>v. ''<object>''),
       messages_create = api,
       call_tool = (\<lambda>k name args. Inr VNone), list_tools = Inr [],
       MAX_LLM_INTERACTION_TURNS = 5, MAX_TOOL_RESULT_TOKENS = 50000 \<rparr>"

definition silent_api :: "nat \<Rightarrow> api_request \<Rightarrow> exn + content_block list" where
  "silent_api k request = Inr []"

text \<open>A runner around a given model interaction and JSON decoder, with a step ceiling.\<close>

definition test_runner ::
  "(nat \<Rightarrow> llm_request \<Rightarrow> exn + string) \<Rightarrow> (string \<Rightarrow> (string \<times> pyval) list option) \<Rightarrow> nat
     \<Rightarrow> runner_env" where
  "test_runner llm loads max_steps =
     \<lparr> llm_interaction = llm, json_loads = loads,
       json_stringify = (\<lambda>v. None), display = (\<lambda>v. ''<object>''),
       plain_object = (\<lambda>v. VStr ''<object>''),
       mcp_session = True, session_call_tool = (\<lambda>k name args. Inr VNone),
       db_client = None, uuid4 = ''exec-1'', MAX_WORKFLOW_STEPS = max_steps \<rparr>"

definition test_agent :: "workflow_step list \<Rightarrow> agent" where
  "test_agent steps =
     \<lparr> agent_id = ''agent-1'', agent_name = ''tester'', agent_user_id = None,
       objective = ''demo'', workflow = steps \<rparr>"

definition fresh_runner :: runner_state where
  "fresh_runner =
     \<lparr> variables = [], step_outputs = [], executed_steps = {}, current_step = 0,
       llm_interactions = 0, tool_invocations = 0 \<rparr>"

definition wf_step :: "string \<Rightarrow> node_type \<Rightarrow> workflow_step" where
  "wf_step name ty = \<lparr> step = name, description = ''a step'', type = ty \<rparr>"

text \<open>A model that answers every interaction with the plain text \<open>ok\<close>.\<close>

definition ok_llm :: "nat \<Rightarrow> llm_request \<Rightarrow> exn + string" where
  "ok_llm k request = Inr ''ok''"

definition no_json :: "string \<Rightarrow> (string \<times> pyval) list option" where
  "no_json text = None"

text \<open>
  A model that answers with the JSON object \<open>{"step_0_input": "b"}\<close>, and the decoding
  of that text.
\<close>

definition dq :: string where
  "dq = [CHR 0x22]"

definition overwrite_reply :: string where
  "overwrite_reply = ''{'' @ dq @ ''step_0_input'' @ dq @ '': '' @ dq @ ''b'' @ dq @ ''}''"

definition overwrite_llm :: "nat \<Rightarrow> llm_request \<Rightarrow> exn + string" where
  "overwrite_llm k request = Inr overwrite_reply"

definition overwrite_loads :: "string \<Rightarrow> (string \<times> pyval) list option" where
  "overwrite_loads text =
     (if text = overwrite_reply then Some [(''step_0_input'', VStr ''b'')] else None)"

text \<open>
  A model API whose first call fails and whose later calls answer with one text block.
\<close>

definition first_call_fails :: "nat \<Rightarrow> api_request \<Rightarrow> exn + content_block list" where
  "first_call_fails k request =
     (if k = 0 then Inl (Exn ''APITimeoutError'' ''Request timed out.'')
      else Inr [TextBlock ''Four trailing characters: aaaa.''])"

text \<open>
  A connected client that knows the tool \<open>search\<close>, and a model API that answers with
  one text block padded with spaces.
\<close>

definition connected_client :: client_state where
  "connected_client = \<lparr> session = True, available_mcp_tools_cache = Some [''search''] \<rparr>"

definition padded_api :: "nat \<Rightarrow> api_request \<Rightarrow> exn + content_block list" where
  "padded_api k request = Inr [TextBlock '' done '']"

section \<open>Properties of the content bound\<close>



text \<open>
  C1, as the code has it. The budget test comes first: content above 1,000,000 tokens
  is refused, with no model call, exactly when it is also above \<open>max_tokens\<close>.
\<close>

theorem bound_refuses_above_hard_limit:
  assumes "content \<noteq> VNone"
    and "count_tokens env (to_text env content) > 1000000"
    and "int (count_tokens env (to_text env content)) > max_tokens"
  shows "summarize_large_content env calls content max_tokens tool_name
           = (Inl (content_too_large tool_name (count_tokens env (to_text env content))), calls)"
  using assms by (simp add: summarize_large_content_def Let_def)

theorem bound_refuses_above_hard_limit_witness:
  "VStr (replicate 4000004 CHR ''a'') \<noteq> VNone
   \<and> count_tokens (estimating_client silent_api)
        (to_text (estimating_client silent_api) (VStr (replicate 4000004 CHR ''a''))) > 1000000
   \<and> int (count_tokens (estimating_client silent_api)
        (to_text (estimating_client silent_api) (VStr (replicate 4000004 CHR ''a'')))) > 50000
   \<and> summarize_large_content (estimating_client silent_api) 0
        (VStr (replicate 4000004 CHR ''a'')) 50000 ''search''
       = (Inl (content_too_large ''search'' 1000001), 0)"
  using bound_refuses_above_hard_limit [of "VStr (replicate 4000004 CHR ''a'')"
          "estimating_client silent_api" 50000 0 "''search''"]
  by (simp add: to_text_def count_tokens_def estimating_client_def)

text \<open>
  C1 as stated fails: with a budget of 2,000,000 tokens, text estimated at 1,000,001
  tokens is returned unchanged instead of being refused.
\<close>

theorem bound_above_hard_limit_counterexample:
  "count_tokens (estimating_client silent_api) (replicate 4000004 CHR ''a'') = 1000001
   \<and> summarize_large_content (estimating_client silent_api) 0
        (VStr (replicate 4000004 CHR ''a'')) 2000000 ''search''
       = (Inr (replicate 4000004 CHR ''a''), 0)"
  by (simp add: summarize_large_content_def to_text_def count_tokens_def estimating_client_def)

lemma combine_gather_from:
  "map (\<lambda>(i, summary). case summary of Inl e \<Rightarrow> p i | Inr s \<Rightarrow> s)
       (enumerate n (map (\<lambda>(i, chunk). Inr (f i chunk)) (enumerate n chunks)))
     = map (\<lambda>(i, chunk). f i chunk) (enumerate n chunks)"
  by (induction chunks arbitrary: n) simp_all

lemma combine_gather:
  "combine (gather_chunks env tool_name calls chunks)
     = map (\<lambda>(i, chunk). summarize_chunk env tool_name (calls + i) chunk i) (enumerate 0 chunks)"
  unfolding combine_def gather_chunks_def by (rule combine_gather_from)

text \<open>
  C8, as the code has it. For content over the budget and within the hard limit the
  call never fails. Every chunk contributes, in chunk order, its stripped summary
  when its model call succeeds and the placeholder naming the chunk when the call
  fails; the combined summary is the header followed by these parts. It is returned as
  it is when it fits the budget, and through the fallback truncation when it does not.
  One model call is made per chunk.
\<close>

theorem chunk_failures_become_placeholders:
  assumes "content \<noteq> VNone"
    and "int (count_tokens env (to_text env content)) > max_tokens"
    and "count_tokens env (to_text env content) \<le> 1000000"
    and "chunks = split_chunks env (to_text env content)"
    and "summary =
           summary_header tool_name (count_tokens env (to_text env content)) (length chunks)
           @ join (nl @ nl)
               (map (\<lambda>(i, chunk).
                       case messages_create env (calls + i) (chunk_request env tool_name chunk i) of
                         Inr blocks \<Rightarrow> strip (block_texts blocks)
                       | Inl e \<Rightarrow> ''[Chunk '' @ str_nat (i + 1) @ '' summarization failed]'')
                    (enumerate 0 chunks))"
  shows "summarize_large_content env calls content max_tokens tool_name
           = (Inr (if int (count_tokens env summary) > max_tokens
                   then truncate_content_fallback env summary max_tokens tool_name
                          (int (count_tokens env summary))
                   else summary),
              calls + length chunks)"
proof -
  have "final_summary env tool_name calls (to_text env content) = summary"
    unfolding final_summary_def Let_def combine_gather assms(4) [symmetric] assms(5)
    by (simp add: summarize_chunk_def)
  then show ?thesis
    using assms(1,2,3,4)
    by (simp add: summarize_large_content_def Let_def)
qed

lemma estimating_count:
  "count_tokens (estimating_client api) s = length s div 4"
  by (simp add: count_tokens_def estimating_client_def)

lemma slices_step:
  "n \<noteq> 0 \<Longrightarrow> s \<noteq> [] \<Longrightarrow> slices n s = take n s # slices n (drop n s)"
  by (subst slices.simps) simp

lemma slices_done: "slices n [] = []"
  by (subst slices.simps) simp

lemma two_chunks:
  "split_chunks (estimating_client api) (replicate 100004 CHR ''a'')
     = [replicate 100000 CHR ''a'', replicate 4 CHR ''a'']"
proof -
  have "slices 100000 (replicate 100004 CHR ''a'')
          = replicate 100000 CHR ''a'' # slices 100000 (replicate 4 CHR ''a'')"
    by (subst slices_step) simp_all
  also have "slices 100000 (replicate 4 CHR ''a'') = replicate 4 CHR ''a'' # slices 100000 []"
    by (subst slices_step) simp_all
  finally have "slices 100000 (replicate 100004 CHR ''a'')
          = [replicate 100000 CHR ''a'', replicate 4 CHR ''a'']"
    by (simp add: slices_done)
  then show ?thesis
    by (simp add: split_chunks_def chunk_size_chars_def estimating_count)
qed

lemma two_chunk_summary:
  "summary_header ''search'' (count_tokens (estimating_client first_call_fails)
        (replicate 100004 CHR ''a'')) (length [replicate 100000 CHR ''a'', replicate 4 CHR ''a''])
     @ join (nl @ nl)
         (map (\<lambda>(i, chunk).
                 case messages_create (estimating_client first_call_fails) (0 + i)
                        (chunk_request (estimating_client first_call_fails) ''search'' chunk i) of
                   Inr blocks \<Rightarrow> strip (block_texts blocks)
                 | Inl e \<Rightarrow> ''[Chunk '' @ str_nat (i + 1) @ '' summarization failed]'')
              (enumerate 0 [replicate 100000 CHR ''a'', replicate 4 CHR ''a'']))
   = ''[CONTENT SUMMARIZED - Original: 25001 tokens from search, 2 chunks]'' @ nl @ nl
       @ ''[Chunk 1 summarization failed]'' @ nl @ nl @ ''Four trailing characters: aaaa.''"
proof -
  have strip: "strip ''Four trailing characters: aaaa.'' = ''Four trailing characters: aaaa.''"
    by code_simp
  have m0: "messages_create (estimating_client first_call_fails) 0 r
              = Inl (Exn ''APITimeoutError'' ''Request timed out.'')" for r
    by (simp add: estimating_client_def first_call_fails_def)
  have m1: "messages_create (estimating_client first_call_fails) (Suc 0) r
              = Inr [TextBlock ''Four trailing characters: aaaa.'']" for r
    by (simp add: estimating_client_def first_call_fails_def)
  show ?thesis
    by (simp add: estimating_count summary_header_def str_nat.simps digit_char_def m0 m1 strip)
qed

lemma two_chunk_cut:
  "truncate_content_fallback (estimating_client first_call_fails)
     (''[CONTENT SUMMARIZED - Original: 25001 tokens from search, 2 chunks]'' @ nl @ nl
       @ ''[Chunk 1 summarization failed]'' @ nl @ nl @ ''Four trailing characters: aaaa.'')
     30 ''search'' (int 33)
   = ''[CONTENT SUMMARIZED - Original: 25001 to'' @ truncation_msg ''search'' 30 33"
  by code_simp


lemma two_chunk_final:
  "final_summary (estimating_client first_call_fails) ''search'' 0 (replicate 100004 CHR ''a'')
     = ''[CONTENT SUMMARIZED - Original: 25001 tokens from search, 2 chunks]'' @ nl @ nl
       @ ''[Chunk 1 summarization failed]'' @ nl @ nl @ ''Four trailing characters: aaaa.''"
  unfolding final_summary_def Let_def combine_gather two_chunks summarize_chunk_def
  by (rule two_chunk_summary)

lemma two_chunk_tokens:
  "count_tokens (estimating_client first_call_fails)
     (''[CONTENT SUMMARIZED - Original: 25001 tokens from search, 2 chunks]'' @ nl @ nl
       @ ''[Chunk 1 summarization failed]'' @ nl @ nl @ ''Four trailing characters: aaaa.'') = 33"
  by (simp add: estimating_count nl_def)

theorem chunk_failures_become_placeholders_witness:
  "VStr (replicate 100004 CHR ''a'') \<noteq> VNone
   \<and> int (count_tokens (estimating_client first_call_fails)
          (to_text (estimating_client first_call_fails) (VStr (replicate 100004 CHR ''a'')))) > 40
   \<and> count_tokens (estimating_client first_call_fails)
          (to_text (estimating_client first_call_fails) (VStr (replicate 100004 CHR ''a'')))
        \<le> 1000000
   \<and> summarize_large_content (estimating_client first_call_fails) 0
        (VStr (replicate 100004 CHR ''a'')) 40 ''search''
       = (Inr (''[CONTENT SUMMARIZED - Original: 25001 tokens from search, 2 chunks]'' @ nl @ nl
               @ ''[Chunk 1 summarization failed]'' @ nl @ nl
               @ ''Four trailing characters: aaaa.''), 2)"
proof -
  have as_text: "to_text (estimating_client first_call_fails) (VStr (replicate 100004 CHR ''a''))
               = replicate 100004 CHR ''a''"
    by (simp add: to_text_def)
  have some: "VStr (replicate 100004 CHR ''a'') \<noteq> VNone"
    by simp
  have over: "int (count_tokens (estimating_client first_call_fails)
          (to_text (estimating_client first_call_fails) (VStr (replicate 100004 CHR ''a'')))) > 40"
    by (simp add: as_text estimating_count)
  have under: "count_tokens (estimating_client first_call_fails)
          (to_text (estimating_client first_call_fails) (VStr (replicate 100004 CHR ''a'')))
        \<le> 1000000"
    by (simp add: as_text estimating_count)
  have "summarize_large_content (estimating_client first_call_fails) 0
        (VStr (replicate 100004 CHR ''a'')) 40 ''search''
       = (Inr (''[CONTENT SUMMARIZED - Original: 25001 tokens from search, 2 chunks]'' @ nl @ nl
               @ ''[Chunk 1 summarization failed]'' @ nl @ nl
               @ ''Four trailing characters: aaaa.''), 2)"
    using chunk_failures_become_placeholders [OF some over under refl refl, of 0 "''search''"]
    unfolding as_text two_chunks two_chunk_summary two_chunk_tokens
    by simp
  with some over under show ?thesis by blast
qed


text \<open>
  C8 as stated fails when the combined summary is over the budget: with a budget of 30
  tokens, the failed first chunk and the summarized second chunk give a combined
  summary of 33 tokens, and what is returned is its first 40 characters and the
  truncation notice, with neither the placeholder nor the second chunk's summary.
\<close>

theorem chunk_summary_truncated_counterexample:
  "summarize_large_content (estimating_client first_call_fails) 0
     (VStr (replicate 100004 CHR ''a'')) 30 ''search''
   = (Inr (''[CONTENT SUMMARIZED - Original: 25001 to'' @ truncation_msg ''search'' 30 33), 2)
   \<and> \<not> contains ''Four trailing characters: aaaa.''
         (''[CONTENT SUMMARIZED - Original: 25001 to'' @ truncation_msg ''search'' 30 33)
   \<and> \<not> contains ''[Chunk 1''
         (''[CONTENT SUMMARIZED - Original: 25001 to'' @ truncation_msg ''search'' 30 33)"
proof -
  have lost: "\<not> contains ''Four trailing characters: aaaa.''
         (''[CONTENT SUMMARIZED - Original: 25001 to'' @ truncation_msg ''search'' 30 33)"
    by code_simp
  have gone: "\<not> contains ''[Chunk 1''
         (''[CONTENT SUMMARIZED - Original: 25001 to'' @ truncation_msg ''search'' 30 33)"
    by code_simp
  have as_text: "to_text (estimating_client first_call_fails) (VStr (replicate 100004 CHR ''a''))
               = replicate 100004 CHR ''a''"
    by (simp add: to_text_def)
  have tokens: "count_tokens (estimating_client first_call_fails) (replicate 100004 CHR ''a'')
                  = 25001"
    by (simp add: estimating_count)
  have "summarize_large_content (estimating_client first_call_fails) 0
     (VStr (replicate 100004 CHR ''a'')) 30 ''search''
   = (Inr (''[CONTENT SUMMARIZED - Original: 25001 to'' @ truncation_msg ''search'' 30 33), 2)"
    unfolding summarize_large_content_def Let_def as_text tokens two_chunk_final two_chunk_tokens
      two_chunks two_chunk_cut
    by simp
  with lost gone show ?thesis by blast
qed

section \<open>Properties of the workflow engine\<close>

lemma track_bookkeeping [simp]:
  "current_step (track_step_output st i outs) = current_step st"
  "executed_steps (track_step_output st i outs) = executed_steps st"
  "llm_interactions (track_step_output st i outs) = llm_interactions st"
  by (simp_all add: track_step_output_def context_update_def)

lemma context_set_bookkeeping [simp]:
  "current_step (context_set st k v) = current_step st"
  "executed_steps (context_set st k v) = executed_steps st"
  "llm_interactions (context_set st k v) = llm_interactions st"
  by (simp_all add: context_set_def)

lemma execute_tool_step_bookkeeping:
  "execute_tool_step env st i config = Inr (outs, st') \<Longrightarrow>
     current_step st' = current_step st \<and> executed_steps st' = executed_steps st"
  by (auto simp: execute_tool_step_def Let_def split: if_splits sum.splits)

lemma ask_llm_bookkeeping:
  "ask_llm env ag st w i config f = Inr (outs, st') \<Longrightarrow>
     current_step st' = current_step st \<and> executed_steps st' = executed_steps st"
  by (auto simp: ask_llm_def Let_def split: if_splits sum.splits)

lemma execute_step_with_llm_bookkeeping:
  "execute_step_with_llm env ag st w i config = Inr (outs, st') \<Longrightarrow>
     current_step st' = current_step st \<and> executed_steps st' = executed_steps st"
  unfolding execute_step_with_llm_def Let_def
  by (auto split: if_splits option.splits dest: ask_llm_bookkeeping)

lemma dispatch_step_bookkeeping:
  "dispatch_step env ag st i config = Inr (outs, st') \<Longrightarrow>
     current_step st' = current_step st \<and> executed_steps st' = executed_steps st"
  unfolding dispatch_step_def Let_def
  by (auto split: if_splits dest: execute_tool_step_bookkeeping execute_step_with_llm_bookkeeping)

lemma run_step_bookkeeping:
  "run_step env ag st i n config = (r, st') \<Longrightarrow>
     current_step st' = current_step st \<and> executed_steps st' = executed_steps st"
  unfolding run_step_def Let_def
  by (auto split: sum.splits dest: dispatch_step_bookkeeping)

lemma workflow_loop_stop:
  assumes "\<not> (i < length (workflow ag) \<and> c \<and> current_step st < MAX_WORKFLOW_STEPS env)"
  shows "workflow_loop env ag i c st outs = Inr (i, c, st, outs)"
  by (subst workflow_loop.simps) (rule if_not_P, rule assms)

lemma workflow_loop_invariant:
  "workflow_loop env ag i c st outs = Inr (i', c', st', outs') \<Longrightarrow>
   current_step st = i \<Longrightarrow> executed_steps st = {0..<i} \<Longrightarrow> i \<le> MAX_WORKFLOW_STEPS env \<Longrightarrow>
     current_step st' = i' \<and> executed_steps st' = {0..<i'} \<and> i' \<le> MAX_WORKFLOW_STEPS env
     \<and> \<not> (i' < length (workflow ag) \<and> c' \<and> i' < MAX_WORKFLOW_STEPS env)"
proof (induction env ag i c st outs rule: workflow_loop.induct)
  case (1 env ag step_index should_continue st outs)
  show ?case
  proof (cases "step_index < length (workflow ag) \<and> should_continue
                 \<and> current_step st < MAX_WORKFLOW_STEPS env")
    case False
    then have "workflow_loop env ag step_index should_continue st outs
                 = Inr (step_index, should_continue, st, outs)"
      by (rule workflow_loop_stop)
    with "1.prems" False show ?thesis
      by auto
  next
    case True
    define st1 where "st1 = st\<lparr>current_step := current_step st + 1,
                     executed_steps := insert step_index (executed_steps st)\<rparr>"
    obtain r st2 where rs: "run_step env ag st1 step_index (current_step st1)
                  (get_step_config (workflow ag) step_index) = (r, st2)"
      by (cases "run_step env ag st1 step_index (current_step st1)
                  (get_step_config (workflow ag) step_index)")
    obtain step_outs cont where r: "r = (step_outs, cont)" by (cases r)
    have ex: "execute_step env ag st1 step_index (current_step st1) = Inr ((step_outs, cont), st2)"
      using True rs r by (simp add: execute_step_def)
    have bk: "current_step st2 = step_index + 1" "executed_steps st2 = {0..<step_index + 1}"
      using run_step_bookkeeping [OF rs] "1.prems"(2,3)
      by (auto simp: st1_def atLeast0_lessThan_Suc)
    have rec: "workflow_loop env ag (step_index + 1) cont st2
                 (if type (workflow ag ! step_index) = Output
                  then dict_update outs (serializable_outputs env step_outs)
                  else outs) = Inr (i', c', st', outs')"
    proof -
      have "workflow_loop env ag step_index should_continue st outs
              = workflow_loop env ag (step_index + 1) cont st2
                 (if type (workflow ag ! step_index) = Output
                  then dict_update outs (serializable_outputs env step_outs)
                  else outs)"
        using True ex unfolding st1_def
        by (subst workflow_loop.simps) (simp add: Let_def)
      with "1.prems"(1) show ?thesis by simp
    qed
    show ?thesis
      using "1.IH" [OF True st1_def ex refl refl rec] bk True "1.prems"(2)
      by simp
  qed
qed


lemma dict_get_dict_set [simp]: "dict_get (dict_set d k v) k = Some v"
  by (induction d) auto

lemma context_get_context_set [simp]: "context_get (context_set st k v) k = v"
  by (simp add: context_get_def context_set_def)

lemma finalize_state:
  "state r = Completed \<or> state r = Failed \<Longrightarrow> finalize r = r"
  by (auto simp: finalize_def)

lemma prepare_run_start:
  "prepare_run env ag st0 ic = Inr (eid, r, st) \<Longrightarrow>
     current_step st = 0 \<and> executed_steps st = {} \<and> state r = Running"
  unfolding prepare_run_def Let_def
  by (auto split: option.splits sum.splits if_splits)

lemma classify_state:
  "fst (classify env ag i c st) = Completed \<or> fst (classify env ag i c st) = Failed"
  by (simp add: classify_def)

lemma execute_workflow_loop_exit:
  assumes "loop_exit (execute_workflow env ag st0 ic) = Some (i, c)"
  obtains eid r st st' outs where
    "prepare_run env ag st0 ic = Inr (eid, r, st)"
    "workflow_loop env ag 0 True st [] = Inr (i, c, st', outs)"
    "execute_workflow env ag st0 ic = complete_run env ag eid r i c st' outs"
  using assms
  unfolding execute_workflow_def
  by (auto simp: workflow_failed_def complete_run_def split: sum.splits prod.splits)

text \<open>
  C7. When the workflow is longer than the step ceiling and the loop ends with the
  continue flag still set (no step cleared it), the run is \<open>failed\<close> with status detail
  \<open>terminated_max_steps\<close>, and exactly \<open>MAX_WORKFLOW_STEPS\<close> steps were executed: the
  steps \<open>0\<close> to \<open>MAX_WORKFLOW_STEPS - 1\<close>.
\<close>

theorem iteration_ceiling:
  assumes "MAX_WORKFLOW_STEPS env < length (workflow ag)"
    and "loop_exit (execute_workflow env ag st0 ic) = Some (i, True)"
  shows "workflow_final_status (execute_workflow env ag st0 ic) = Failed
         \<and> state (finalized_record (execute_workflow env ag st0 ic)) = Failed
         \<and> context_get (runner (execute_workflow env ag st0 ic)) ''workflow_status_detail''
             = VStr ''terminated_max_steps''
         \<and> current_step (runner (execute_workflow env ag st0 ic)) = MAX_WORKFLOW_STEPS env
         \<and> executed_steps (runner (execute_workflow env ag st0 ic)) = {0..<MAX_WORKFLOW_STEPS env}"
proof -
  from assms(2) obtain eid r st st' outs where
    prep: "prepare_run env ag st0 ic = Inr (eid, r, st)" and
    loop: "workflow_loop env ag 0 True st [] = Inr (i, True, st', outs)" and
    res: "execute_workflow env ag st0 ic = complete_run env ag eid r i True st' outs"
    by (rule execute_workflow_loop_exit)
  from prepare_run_start [OF prep] have "current_step st = 0" "executed_steps st = {0..<0}"
    by simp_all
  from workflow_loop_invariant [OF loop this] have
    inv: "current_step st' = i" "executed_steps st' = {0..<i}" "i \<le> MAX_WORKFLOW_STEPS env"
      "\<not> (i < length (workflow ag) \<and> i < MAX_WORKFLOW_STEPS env)"
    by simp_all
  with assms(1) have i: "i = MAX_WORKFLOW_STEPS env" by linarith
  have cls: "classify env ag i True st'
               = (Failed, Some (''Reached maximum workflow steps ('' @ str_nat (MAX_WORKFLOW_STEPS env)
                  @ ''). Terminating.''), ''terminated_max_steps'')"
    using inv(1) i assms(1) by (simp add: classify_def)
  show ?thesis
    unfolding res complete_run_def cls
    using inv(1,2) i by (simp add: finalize_def)
qed

theorem iteration_ceiling_witness:
  "MAX_WORKFLOW_STEPS (test_runner ok_llm no_json 20)
     < length (workflow (test_agent (replicate 25 (wf_step ''no-op'' Process))))
   \<and> loop_exit (execute_workflow (test_runner ok_llm no_json 20)
        (test_agent (replicate 25 (wf_step ''no-op'' Process))) fresh_runner []) = Some (20, True)
   \<and> workflow_final_status (execute_workflow (test_runner ok_llm no_json 20)
        (test_agent (replicate 25 (wf_step ''no-op'' Process))) fresh_runner []) = Failed
   \<and> context_get (runner (execute_workflow (test_runner ok_llm no_json 20)
        (test_agent (replicate 25 (wf_step ''no-op'' Process))) fresh_runner []))
          ''workflow_status_detail'' = VStr ''terminated_max_steps''
   \<and> current_step (runner (execute_workflow (test_runner ok_llm no_json 20)
        (test_agent (replicate 25 (wf_step ''no-op'' Process))) fresh_runner [])) = 20"
proof -
  have len: "MAX_WORKFLOW_STEPS (test_runner ok_llm no_json 20)
     < length (workflow (test_agent (replicate 25 (wf_step ''no-op'' Process))))"
    by (simp add: test_runner_def test_agent_def)
  have exit: "loop_exit (execute_workflow (test_runner ok_llm no_json 20)
        (test_agent (replicate 25 (wf_step ''no-op'' Process))) fresh_runner []) = Some (20, True)"
    by code_simp
  show ?thesis
    using iteration_ceiling [OF len exit] len exit by (simp add: test_runner_def)
qed

text \<open>
  C2, at a failing step. The tool step resolves its argument to a foreign object, the
  serialization in its log line raises, and the handler of \<open>execute_step\<close> records
  \<open>step_0_error\<close> and clears the continue flag; no further step runs. The run then
  ends \<open>completed\<close> with detail \<open>completed_stopped_by_decision\<close> and without an error,
  where the claim has \<open>failed\<close>.
\<close>

theorem step_exception_ends_completed:
  "workflow_final_status (execute_workflow (test_runner ok_llm no_json 20)
      (test_agent [wf_step ''search'' Tool, wf_step ''report'' Process]) fresh_runner
      [(''step_{prev_index}_result'', VObj ''<TextContent>'')]) = Completed
   \<and> state (finalized_record (execute_workflow (test_runner ok_llm no_json 20)
      (test_agent [wf_step ''search'' Tool, wf_step ''report'' Process]) fresh_runner
      [(''step_{prev_index}_result'', VObj ''<TextContent>'')])) = Completed
   \<and> result_error (execute_workflow (test_runner ok_llm no_json 20)
      (test_agent [wf_step ''search'' Tool, wf_step ''report'' Process]) fresh_runner
      [(''step_{prev_index}_result'', VObj ''<TextContent>'')]) = None
   \<and> loop_exit (execute_workflow (test_runner ok_llm no_json 20)
      (test_agent [wf_step ''search'' Tool, wf_step ''report'' Process]) fresh_runner
      [(''step_{prev_index}_result'', VObj ''<TextContent>'')]) = Some (1, False)
   \<and> dict_get (variables (runner (execute_workflow (test_runner ok_llm no_json 20)
      (test_agent [wf_step ''search'' Tool, wf_step ''report'' Process]) fresh_runner
      [(''step_{prev_index}_result'', VObj ''<TextContent>'')]))) ''step_0_error'' \<noteq> None
   \<and> context_get (runner (execute_workflow (test_runner ok_llm no_json 20)
      (test_agent [wf_step ''search'' Tool, wf_step ''report'' Process]) fresh_runner
      [(''step_{prev_index}_result'', VObj ''<TextContent>'')])) ''workflow_status_detail''
        = VStr ''completed_stopped_by_decision''"
  by code_simp

text \<open>
  C3, at a tool step of ordinal 1. The default \<open>input_mapping\<close> is a dictionary, which
  the substitution passes by: its value keeps the previous-ordinal placeholder, while
  the list and string defaults of a process step at the same ordinal are substituted.
  At ordinal 0 a list element without the previous-ordinal placeholder keeps its
  current-ordinal placeholder as well.
\<close>

theorem tool_mapping_placeholder_kept:
  "dict_get (get_step_config [wf_step ''fetch'' Process, wf_step ''search'' Tool] 1) ''input_mapping''
     = Some (VDict [(''query'', VStr ''step_{prev_index}_result'')])
   \<and> dict_get (get_step_config [wf_step ''fetch'' Process, wf_step ''digest'' Process] 1) ''input_variables''
     = Some (VList [VStr ''step_0_result''])
   \<and> dict_get (get_step_config [wf_step ''report'' Output] 0) ''output_variables''
     = Some (VList [VStr ''step_{index}_result''])"
  by code_simp

lemma input_default_in_engine_config:
  assumes "i < length steps" and "type (steps ! i) = Input"
  shows "dict_get (get_step_config steps i) ''default_value'' = Some VNone"
  using assms by (simp add: get_step_config_def Let_def substitute_value_def)

text \<open>
  C5, as the code has it. For an input step: when the target variable reads as \<open>None\<close>
  in the context and a default other than \<open>None\<close> is configured, the outputs are exactly
  the default under the variable's name, they are merged into the context, and the model
  is not invoked. In every other case (the variable is bound, or no default is
  configured) the input handling writes nothing and the step is handed to the model.
  The configuration that the engine builds for an input step has \<open>default_value = None\<close>.
\<close>

theorem input_step_default:
  assumes "type (workflow ag ! i) = Input"
    and "var = config_str config ''variable_name'' (step_key i ''_input'')"
    and "d = (case dict_get config ''default_value'' of Some v \<Rightarrow> v | None \<Rightarrow> VNone)"
  shows "(context_get st var = VNone \<and> d \<noteq> VNone \<longrightarrow>
            run_step env ag st i n config = (([(var, d)], True), track_step_output st i [(var, d)])
            \<and> context_get (track_step_output st i [(var, d)]) var = d
            \<and> llm_interactions (track_step_output st i [(var, d)]) = llm_interactions st)
         \<and> (context_get st var \<noteq> VNone \<or> d = VNone \<longrightarrow>
            execute_step_with_llm env ag st (workflow ag ! i) i config
              = ask_llm env ag st (workflow ag ! i) i config
                  (filtered_context env ag st (workflow ag ! i) i config))
         \<and> (i < length (workflow ag) \<longrightarrow>
            dict_get (get_step_config (workflow ag) i) ''default_value'' = Some VNone)"
proof (intro conjI impI)
  assume a: "context_get st var = VNone \<and> d \<noteq> VNone"
  then have "execute_step_with_llm env ag st (workflow ag ! i) i config = Inr ([(var, d)], st)"
    using assms by (simp add: execute_step_with_llm_def Let_def)
  then show "run_step env ag st i n config = (([(var, d)], True), track_step_output st i [(var, d)])"
    using assms(1) by (simp add: run_step_def dispatch_step_def Let_def)
  show "context_get (track_step_output st i [(var, d)]) var = d"
    by (simp add: track_step_output_def context_update_def context_get_def)
  show "llm_interactions (track_step_output st i [(var, d)]) = llm_interactions st"
    by simp
next
  assume "context_get st var \<noteq> VNone \<or> d = VNone"
  then show "execute_step_with_llm env ag st (workflow ag ! i) i config
              = ask_llm env ag st (workflow ag ! i) i config
                  (filtered_context env ag st (workflow ag ! i) i config)"
    using assms by (auto simp: execute_step_with_llm_def Let_def)
next
  assume "i < length (workflow ag)"
  then show "dict_get (get_step_config (workflow ag) i) ''default_value'' = Some VNone"
    using assms(1) by (rule input_default_in_engine_config)
qed

theorem input_step_default_witness:
  "type (workflow (test_agent [wf_step ''ask'' Input]) ! 0) = Input
   \<and> ''q'' = config_str [(''variable_name'', VStr ''q''), (''default_value'', VStr ''hi'')]
               ''variable_name'' (step_key 0 ''_input'')
   \<and> context_get fresh_runner ''q'' = VNone \<and> VStr ''hi'' \<noteq> VNone
   \<and> run_step (test_runner ok_llm no_json 20) (test_agent [wf_step ''ask'' Input]) fresh_runner 0 1
        [(''variable_name'', VStr ''q''), (''default_value'', VStr ''hi'')]
       = (([(''q'', VStr ''hi'')], True), track_step_output fresh_runner 0 [(''q'', VStr ''hi'')])
   \<and> context_get (track_step_output fresh_runner 0 [(''q'', VStr ''hi'')]) ''q'' = VStr ''hi''
   \<and> dict_get (get_step_config (workflow (test_agent [wf_step ''ask'' Input])) 0) ''default_value''
       = Some VNone"
proof -
  have ty: "type (workflow (test_agent [wf_step ''ask'' Input]) ! 0) = Input"
    by (simp add: test_agent_def wf_step_def)
  have var: "''q'' = config_str [(''variable_name'', VStr ''q''), (''default_value'', VStr ''hi'')]
               ''variable_name'' (step_key 0 ''_input'')"
    by (simp add: config_str_def)
  have d: "VStr ''hi'' = (case dict_get [(''variable_name'', VStr ''q''), (''default_value'', VStr ''hi'')]
                              ''default_value'' of Some v \<Rightarrow> v | None \<Rightarrow> VNone)"
    by simp
  have unbound: "context_get fresh_runner ''q'' = VNone"
    by (simp add: context_get_def fresh_runner_def)
  have len: "0 < length (workflow (test_agent [wf_step ''ask'' Input]))"
    by (simp add: test_agent_def)
  show ?thesis
    using input_step_default [OF ty var d, of fresh_runner "test_runner ok_llm no_json 20" 1]
      ty var unbound len
    by simp
qed

text \<open>
  C5 as stated fails: with \<open>step_0_input\<close> bound to \<open>a\<close>, the input step at ordinal 0 is
  handed to the model, whose reply \<open>{"step_0_input": "b"}\<close> is merged into the context
  and replaces the value.
\<close>

theorem input_step_bound_variable_counterexample:
  "context_get (context_update fresh_runner [(''step_0_input'', VStr ''a'')]) ''step_0_input'' = VStr ''a''
   \<and> execute_step (test_runner overwrite_llm overwrite_loads 20) (test_agent [wf_step ''ask'' Input])
        (context_update fresh_runner [(''step_0_input'', VStr ''a'')]) 0 1
      = Inr (([(''step_0_input'', VStr ''b'')], True),
             \<lparr> variables = [(''step_0_input'', VStr ''b'')],
               step_outputs = [(0, [(''step_0_input'', VStr ''b'')])],
               executed_steps = {}, current_step = 0,
               llm_interactions = 1, tool_invocations = 0 \<rparr>)"
  by code_simp










section \<open>Properties of the fallback truncation\<close>

lemma take_take_le:
  "k \<le> length (take j t) \<Longrightarrow> take k (take j t) = take k t \<and> k \<le> length t"
  by (simp add: min_absorb1)

lemma take_prefix: "\<exists>k\<le>length xs. take n xs = take k xs"
proof (cases "n \<le> length xs")
  case True
  then show ?thesis by blast
next
  case False
  then have "take n xs = take (length xs) xs" by simp
  then show ?thesis by blast
qed

lemma shrink_prefix: "\<exists>k\<le>length t. shrink env target t = take k t"
proof (induction env target t rule: shrink.induct)
  case (1 env target_tokens truncated)
  show ?case
  proof (cases "int (count_tokens env truncated) > target_tokens \<and> length truncated > 100")
    case False
    then have "shrink env target_tokens truncated = truncated"
      by (subst shrink.simps) auto
    then have "shrink env target_tokens truncated = take (length truncated) truncated"
      by simp
    then show ?thesis by blast
  next
    case True
    then have eq: "shrink env target_tokens truncated
            = shrink env target_tokens (take (9 * length truncated div 10) truncated)"
      by (subst shrink.simps) auto
    from "1.IH" [OF True] obtain k where
      k: "k \<le> length (take (9 * length truncated div 10) truncated)"
         "shrink env target_tokens (take (9 * length truncated div 10) truncated)
            = take k (take (9 * length truncated div 10) truncated)"
      by blast
    from k have "shrink env target_tokens truncated = take k truncated" "k \<le> length truncated"
      unfolding eq using take_take_le [OF k(1)] by simp_all
    then show ?thesis by blast
  qed
qed

lemma shrink_within: 
  "int (count_tokens env t) \<le> target \<Longrightarrow> shrink env target t = t"
  by (subst shrink.simps) simp

lemma slice_to_prefix: "\<exists>k\<le>length text. slice_to text e = take k text"
  unfolding slice_to_def using take_prefix by auto

lemma slice_to_all: "int (length text) \<le> e \<Longrightarrow> slice_to text e = text"
  by (simp add: slice_to_def)

lemma truncation_msg_nonempty: "truncation_msg tool m orig \<noteq> []"
  by (simp add: truncation_msg_def nl_def)

text \<open>
  C4, as the code has it. Fallback truncation is not idempotent: its result is always a
  prefix of the text followed by the truncation notice, which is never empty. For text
  that is already within what the budget leaves after the notice, and that the
  estimated cut covers, the result is the whole text followed by the notice.
\<close>

theorem fallback_truncation_appends_notice:
  "(\<exists>k\<le>length text.
      truncate_content_fallback env text max_tokens tool_name original_tokens
        = take k text @ truncation_msg tool_name max_tokens original_tokens)
   \<and> truncation_msg tool_name max_tokens original_tokens \<noteq> []
   \<and> (int (count_tokens env text)
         \<le> max_tokens - int (count_tokens env (truncation_msg tool_name max_tokens original_tokens))
       \<and> int (length text)
         \<le> estimated_chars env text
              (max_tokens - int (count_tokens env (truncation_msg tool_name max_tokens original_tokens)))
              original_tokens
       \<longrightarrow> truncate_content_fallback env text max_tokens tool_name original_tokens
             = text @ truncation_msg tool_name max_tokens original_tokens)"
proof (intro conjI impI)
  define target where
    "target = max_tokens - int (count_tokens env (truncation_msg tool_name max_tokens original_tokens))"
  define cut where "cut = slice_to text (estimated_chars env text target original_tokens)"
  have res: "truncate_content_fallback env text max_tokens tool_name original_tokens
               = shrink env target cut @ truncation_msg tool_name max_tokens original_tokens"
    by (simp add: truncate_content_fallback_def Let_def target_def cut_def)
  obtain j where j: "j \<le> length text" "cut = take j text"
    unfolding cut_def using slice_to_prefix by blast
  obtain k where k: "k \<le> length cut" "shrink env target cut = take k cut"
    using shrink_prefix by blast
  have "shrink env target cut = take k text" "k \<le> length text"
    using take_take_le [of k j "text"] j k by simp_all
  then show "\<exists>k\<le>length text.
      truncate_content_fallback env text max_tokens tool_name original_tokens
        = take k text @ truncation_msg tool_name max_tokens original_tokens"
    unfolding res by blast
  show "truncation_msg tool_name max_tokens original_tokens \<noteq> []"
    by (rule truncation_msg_nonempty)
  assume "int (count_tokens env text)
         \<le> max_tokens - int (count_tokens env (truncation_msg tool_name max_tokens original_tokens))
       \<and> int (length text)
         \<le> estimated_chars env text
              (max_tokens - int (count_tokens env (truncation_msg tool_name max_tokens original_tokens)))
              original_tokens"
  then have "cut = text" "int (count_tokens env text) \<le> target"
    by (simp_all add: cut_def target_def slice_to_all)
  then show "truncate_content_fallback env text max_tokens tool_name original_tokens
             = text @ truncation_msg tool_name max_tokens original_tokens"
    unfolding res by (simp add: shrink_within)
qed

theorem fallback_truncation_appends_notice_witness:
  "int (count_tokens (estimating_client silent_api) ''hello world!'')
     \<le> 100 - int (count_tokens (estimating_client silent_api) (truncation_msg ''search'' 100 3))
   \<and> int (length ''hello world!'')
     \<le> estimated_chars (estimating_client silent_api) ''hello world!''
          (100 - int (count_tokens (estimating_client silent_api) (truncation_msg ''search'' 100 3))) 3
   \<and> truncate_content_fallback (estimating_client silent_api) ''hello world!'' 100 ''search'' 3
       = ''hello world!'' @ truncation_msg ''search'' 100 3"
proof -
  have fits: "int (count_tokens (estimating_client silent_api) ''hello world!'')
     \<le> 100 - int (count_tokens (estimating_client silent_api) (truncation_msg ''search'' 100 3))"
    by code_simp
  have covers: "int (length ''hello world!'')
     \<le> estimated_chars (estimating_client silent_api) ''hello world!''
          (100 - int (count_tokens (estimating_client silent_api) (truncation_msg ''search'' 100 3))) 3"
    by code_simp
  show ?thesis
    using fallback_truncation_appends_notice
            [of "''hello world!''" "estimating_client silent_api" 100 "''search''" 3] fits covers
    by blast
qed

text \<open>
  C4 as stated fails: the text \<open>hello world!\<close> (3 estimated tokens, budget 100) comes
  back with the notice appended, and so does that result when it is truncated again.
\<close>

theorem fallback_truncation_counterexample:
  "int (count_tokens (estimating_client silent_api) ''hello world!'') \<le> 100
   \<and> truncate_content_fallback (estimating_client silent_api) ''hello world!'' 100 ''search'' 3
       = ''hello world!'' @ truncation_msg ''search'' 100 3
   \<and> truncate_content_fallback (estimating_client silent_api) ''hello world!'' 100 ''search'' 3
       \<noteq> ''hello world!''
   \<and> int (count_tokens (estimating_client silent_api)
         (''hello world!'' @ truncation_msg ''search'' 100 3)) \<le> 100
   \<and> truncate_content_fallback (estimating_client silent_api)
        (''hello world!'' @ truncation_msg ''search'' 100 3) 100 ''search'' 23
       = ''hello world!'' @ truncation_msg ''search'' 100 3 @ truncation_msg ''search'' 100 23
   \<and> truncate_content_fallback (estimating_client silent_api)
        (''hello world!'' @ truncation_msg ''search'' 100 3) 100 ''search'' 23
       \<noteq> ''hello world!'' @ truncation_msg ''search'' 100 3"
  by code_simp

end
